theory Spec2Isabelle
  imports Main
begin

section \<open>Python values and the operations the script applies to them\<close>

text \<open>
  The script \<^verbatim>\<open>powo_syno.py\<close> works on loosely typed values: the decoded JSON body of
  the IPNI search response and the cells of the data frame read from the input CSV.
  Both are values of \<open>pyval\<close>. A dictionary is the list of its items (keys are strings,
  as in JSON; a lookup takes the first item of a key). A character is a code point
  below 256. A float keeps what the script can observe of it: whether it is zero.
\<close>

datatype pyfloat = Float int int | Inf | NegInf | NaN

datatype pyval =
    PNone
  | PBool bool
  | PInt int
  | PFloat pyfloat
  | PStr string
  | PList "pyval list"
  | PDict "(string \<times> pyval) list"

text \<open>
  Exceptions are values. Every constructor stands for a subclass of Python's
  \<^verbatim>\<open>Exception\<close>, which is what the two \<^verbatim>\<open>except Exception\<close> clauses catch.
\<close>

datatype exn =
    RequestException string
  | HTTPError nat
  | JSONDecodeError
  | ParserError
  | KeyError string
  | IndexError
  | TypeError
  | AttributeError
  | ValueError string
  | UnicodeEncodeError
  | OSError string

definition ebind :: "exn + 'a \<Rightarrow> ('a \<Rightarrow> exn + 'b) \<Rightarrow> exn + 'b" where
  "ebind m f = (case m of Inl e \<Rightarrow> Inl e | Inr x \<Rightarrow> f x)"

text \<open>Truth value of \<^verbatim>\<open>if x\<close> / \<^verbatim>\<open>not x\<close>.\<close>

fun truthy :: "pyval \<Rightarrow> bool" where
  "truthy PNone = False"
| "truthy (PBool b) = b"
| "truthy (PInt i) = (i \<noteq> 0)"
| "truthy (PFloat (Float m e)) = (m \<noteq> 0)"
| "truthy (PFloat _) = True"
| "truthy (PStr s) = (s \<noteq> [])"
| "truthy (PList xs) = (xs \<noteq> [])"
| "truthy (PDict d) = (d \<noteq> [])"

fun starts_with :: "string \<Rightarrow> string \<Rightarrow> bool" where
  "starts_with [] s = True"
| "starts_with (p # ps) [] = False"
| "starts_with (p # ps) (c # cs) = (p = c \<and> starts_with ps cs)"

fun is_substring :: "string \<Rightarrow> string \<Rightarrow> bool" where
  "is_substring p [] = (p = [])"
| "is_substring p (c # cs) = (starts_with p (c # cs) \<or> is_substring p cs)"

text \<open>\<^verbatim>\<open>key in x\<close> for a string \<open>key\<close>: key membership in a dict, element membership in
  a list, substring test in a string, \<^verbatim>\<open>TypeError\<close> for a value that is not iterable.\<close>

fun py_contains :: "string \<Rightarrow> pyval \<Rightarrow> exn + bool" where
  "py_contains k (PDict d) = Inr (k \<in> set (map fst d))"
| "py_contains k (PList xs) = Inr (PStr k \<in> set xs)"
| "py_contains k (PStr s) = Inr (is_substring k s)"
| "py_contains k _ = Inl TypeError"

text \<open>\<^verbatim>\<open>x[key]\<close> for a string \<open>key\<close>.\<close>

fun py_getitem_str :: "pyval \<Rightarrow> string \<Rightarrow> exn + pyval" where
  "py_getitem_str (PDict d) k =
     (case map_of d k of None \<Rightarrow> Inl (KeyError k) | Some v \<Rightarrow> Inr v)"
| "py_getitem_str _ k = Inl TypeError"

text \<open>\<^verbatim>\<open>xs[i]\<close> on a Python sequence: a negative index counts from the end, an index
  out of range raises \<^verbatim>\<open>IndexError\<close>.\<close>

definition seq_index :: "'a list \<Rightarrow> int \<Rightarrow> exn + 'a" where
  "seq_index xs i =
     (if 0 \<le> i \<and> i < int (length xs) then Inr (xs ! nat i)
      else if i < 0 \<and> - int (length xs) \<le> i then Inr (xs ! nat (int (length xs) + i))
      else Inl IndexError)"

text \<open>\<^verbatim>\<open>x[0]\<close>: an element of a list, a one-character string of a string,
  \<^verbatim>\<open>KeyError\<close> on a dict (its keys are strings), \<^verbatim>\<open>TypeError\<close> otherwise.\<close>

fun py_getitem_0 :: "pyval \<Rightarrow> exn + pyval" where
  "py_getitem_0 (PList xs) = seq_index xs 0"
| "py_getitem_0 (PStr s) = ebind (seq_index s 0) (\<lambda>c. Inr (PStr [c]))"
| "py_getitem_0 (PDict d) = Inl (KeyError ''0'')"
| "py_getitem_0 _ = Inl TypeError"

fun py_len :: "pyval \<Rightarrow> exn + nat" where
  "py_len (PStr s) = Inr (length s)"
| "py_len (PList xs) = Inr (length xs)"
| "py_len (PDict d) = Inr (length (remdups (map fst d)))"
| "py_len _ = Inl TypeError"

text \<open>\<^verbatim>\<open>s.split(":")\<close>: the pieces between the separators, empty pieces kept.\<close>

fun split_acc :: "char \<Rightarrow> string \<Rightarrow> string \<Rightarrow> string list" where
  "split_acc c acc [] = [acc]"
| "split_acc c acc (x # xs) =
     (if x = c then acc # split_acc c [] xs else split_acc c (acc @ [x]) xs)"

definition split_char :: "char \<Rightarrow> string \<Rightarrow> string list" where
  "split_char c s = split_acc c [] s"

fun py_split :: "pyval \<Rightarrow> char \<Rightarrow> exn + string list" where
  "py_split (PStr s) c = Inr (split_char c s)"
| "py_split _ c = Inl AttributeError"

text \<open>\<^verbatim>\<open>s.strip()\<close>: leading and trailing whitespace removed (the code points below
  256 for which \<^verbatim>\<open>str.isspace\<close> holds).\<close>

definition is_space :: "char \<Rightarrow> bool" where
  "is_space c = ((of_char c :: nat) \<in> {9, 10, 11, 12, 13, 28, 29, 30, 31, 32, 133, 160})"

definition strip :: "string \<Rightarrow> string" where
  "strip s = rev (dropWhile is_space (rev (dropWhile is_space s)))"

fun py_strip :: "pyval \<Rightarrow> exn + string" where
  "py_strip (PStr s) = Inr (strip s)"
| "py_strip _ = Inl AttributeError"

text \<open>\<^verbatim>\<open>sep.join(xs)\<close> on a list of strings.\<close>

fun join :: "string \<Rightarrow> string list \<Rightarrow> string" where
  "join sep [] = []"
| "join sep [x] = x"
| "join sep (x # y # ys) = x @ sep @ join sep (y # ys)"


section \<open>The parsed HTML document\<close>

text \<open>
  The tree that \<^verbatim>\<open>BeautifulSoup(response.text, "html.parser")\<close> builds: a tag has a
  name, attributes and contents; an attribute value is a string, or a list of strings
  for a multi-valued attribute such as \<^verbatim>\<open>class\<close>. A string of the tree belongs to one
  of the string classes of the library: the parser makes the text inside
  \<^verbatim>\<open>script\<close>, \<^verbatim>\<open>style\<close>, \<^verbatim>\<open>template\<close>, \<^verbatim>\<open>rt\<close> and \<^verbatim>\<open>rp\<close> a string of a class of its
  own, as it does for comments, declarations and processing instructions.
\<close>

datatype attr_value = Single string | Multi "string list"

datatype node =
    Tag string "(string \<times> attr_value) list" "node list"
  | NavigableString string
  | CData string
  | Comment string
  | Script string
  | Stylesheet string
  | TemplateString string
  | RubyTextString string
  | RubyParenthesisString string
  | Doctype string
  | Declaration string
  | ProcessingInstruction string

text \<open>All nodes below a node, in document order.\<close>

fun descendants :: "node \<Rightarrow> node list" where
  "descendants (Tag nm attrs cs) = concat (map (\<lambda>c. c # descendants c) cs)"
| "descendants _ = []"

text \<open>How a search value given as a string matches an attribute: a missing attribute
  matches only the empty value, a multi-valued one matches by any of its items or by
  their join.\<close>

fun matches_attr :: "attr_value option \<Rightarrow> string \<Rightarrow> bool" where
  "matches_attr None want = (want = [])"
| "matches_attr (Some (Single s)) want = (s = want)"
| "matches_attr (Some (Multi ss)) want = (want \<in> set ss \<or> join '' '' ss = want)"

fun matches_tag :: "string \<Rightarrow> (string \<times> string) list \<Rightarrow> node \<Rightarrow> bool" where
  "matches_tag nm wanted (Tag nm' attrs cs) =
     (nm' = nm \<and> list_all (\<lambda>(k, v). matches_attr (map_of attrs k) v) wanted)"
| "matches_tag nm wanted _ = False"

text \<open>\<^verbatim>\<open>tag.find(name, **attrs)\<close> and \<^verbatim>\<open>tag.find_all(name)\<close>.\<close>

definition find_tag :: "node \<Rightarrow> string \<Rightarrow> (string \<times> string) list \<Rightarrow> node option" where
  "find_tag root nm wanted = List.find (matches_tag nm wanted) (descendants root)"

definition find_all :: "node \<Rightarrow> string \<Rightarrow> node list" where
  "find_all root nm = filter (matches_tag nm []) (descendants root)"

text \<open>\<^verbatim>\<open>tag.text\<close> of a tag such as \<^verbatim>\<open>li\<close>: the strings below the tag whose class is
  \<^verbatim>\<open>NavigableString\<close> or \<^verbatim>\<open>CData\<close>, concatenated in document order; the strings of
  every other class (comments, the text of scripts and style sheets, ...) are left out.\<close>

fun get_text :: "node \<Rightarrow> string" where
  "get_text (Tag nm attrs cs) = concat (map get_text cs)"
| "get_text (NavigableString s) = s"
| "get_text (CData s) = s"
| "get_text _ = []"


section \<open>The outside world: HTTP, the file system, the console, the clock\<close>

text \<open>
  A request as \<^verbatim>\<open>requests.get\<close> receives it, and what the script reads of a
  response: the status code, the result of \<^verbatim>\<open>response.json()\<close> and the result of
  \<^verbatim>\<open>BeautifulSoup(response.text, "html.parser")\<close>, each of which is a value or a
  raised exception.
\<close>

record request =
  url :: string
  params :: "(string \<times> string) list"
  headers :: "(string \<times> string) list"
  timeout :: nat

record response =
  status_code :: nat
  json :: "exn + pyval"
  html :: "exn + node"

text \<open>\<^verbatim>\<open>response.raise_for_status()\<close> raises for the codes 400 to 599.\<close>

definition raise_for_status :: "response \<Rightarrow> exn + unit" where
  "raise_for_status r =
     (if 400 \<le> status_code r \<and> status_code r < 600
      then Inl (HTTPError (status_code r)) else Inr ())"

record result =
  Species :: string
  POWO_URL :: string
  Synonyms :: string

text \<open>The lines the script prints, by their f-string, and the effects of a run in the
  order they happen.\<close>

datatype line =
    ErrorRetrievingIpniId string exn
  | ErrorFetchingSynonyms string exn
  | ProcessingSpecies string
  | NoIpniIdFound string
  | ConstructedPowoUrl string
  | ResultsSaved string

datatype event =
    Print line
  | Get request
  | Sleep nat
  | ToCsv string "result list"

text \<open>
  The data frame that \<^verbatim>\<open>pd.read_csv\<close> returns: its column labels and its rows, a row
  being the items (label, cell) of the Series that \<^verbatim>\<open>iterrows\<close> yields.

  The world answers a call of \<^verbatim>\<open>pd.read_csv\<close> with a data frame or an exception,
  and a call of \<^verbatim>\<open>requests.get\<close> with a response or an exception; the answer to a
  request may depend on everything that happened before it. The world also says which
  characters the encoding of standard output has (besides ASCII, which every encoding
  of a console has), what \<^verbatim>\<open>str(e)\<close> is for an exception (the wording belongs to the
  libraries and the interpreter), and whether \<^verbatim>\<open>to_csv\<close> can write given records to
  a given path. Sleeping always succeeds.
\<close>

record dataframe =
  columns :: "string list"
  rows :: "(string \<times> pyval) list list"

record world =
  read_csv :: "string \<Rightarrow> exn + dataframe"
  requests_get :: "event list \<Rightarrow> request \<Rightarrow> exn + response"
  stdout_encodes :: "char \<Rightarrow> bool"
  exn_str :: "exn \<Rightarrow> string"
  to_csv :: "string \<Rightarrow> result list \<Rightarrow> exn option"

text \<open>The text of a printed line, given \<^verbatim>\<open>str(e)\<close>: the f-strings of lines 28, 61, 79,
  84, 90 and 106.\<close>

fun render :: "(exn \<Rightarrow> string) \<Rightarrow> line \<Rightarrow> string" where
  "render str (ErrorRetrievingIpniId species_name e) =
     ''Error retrieving IPNI ID for '' @ species_name @ '': '' @ str e"
| "render str (ErrorFetchingSynonyms powo_url e) =
     ''Error fetching synonyms from '' @ powo_url @ '': '' @ str e"
| "render str (ProcessingSpecies species_name) = ''Processing species: '' @ species_name"
| "render str (NoIpniIdFound species_name) = ''No IPNI ID found for '' @ species_name"
| "render str (ConstructedPowoUrl powo_url) = ''Constructed POWO URL: '' @ powo_url"
| "render str (ResultsSaved output_csv) = ''Results saved to '' @ output_csv"

definition encodable :: "world \<Rightarrow> char \<Rightarrow> bool" where
  "encodable w c = ((of_char c :: nat) < 128 \<or> stdout_encodes w c)"

definition can_print :: "world \<Rightarrow> line \<Rightarrow> bool" where
  "can_print w l = list_all (encodable w) (render (exn_str w) l)"

text \<open>\<^verbatim>\<open>print(...)\<close>: the line is written, or \<^verbatim>\<open>UnicodeEncodeError\<close> is raised when
  standard output cannot encode one of its characters. This is the failure of
  \<^verbatim>\<open>print\<close> that depends on what the script prints; a standard output that is closed
  or whose reader has gone is not part of the model.\<close>

definition py_print :: "world \<Rightarrow> line \<Rightarrow> event list \<Rightarrow> (exn + unit) \<times> event list" where
  "py_print w l t = (if can_print w l then (Inr (), t @ [Print l]) else (Inl UnicodeEncodeError, t))"


section \<open>The Resolver: \<^verbatim>\<open>fetch_ipni_id\<close>\<close>

definition ipni_request :: "string \<Rightarrow> request" where
  "ipni_request species_name =
     \<lparr>url = ''https://www.ipni.org/api/1/search'',
      params = [(''q'', species_name), (''type'', ''names'')],
      headers = [],
      timeout = 10\<rparr>"

text \<open>The condition of line 22:
  \<^verbatim>\<open>data and "results" in data and len(data["results"]) > 0\<close>.\<close>

definition has_results :: "pyval \<Rightarrow> exn + bool" where
  "has_results data =
     (if \<not> truthy data then Inr False
      else ebind (py_contains ''results'' data) (\<lambda>present.
        if \<not> present then Inr False
        else ebind (py_getitem_str data ''results'') (\<lambda>rs.
             ebind (py_len rs) (\<lambda>n. Inr (n > 0)))))"

text \<open>Line 23: \<^verbatim>\<open>data["results"][0]["id"].split(":")[-1]\<close>.\<close>

definition first_result_id :: "pyval \<Rightarrow> exn + string" where
  "first_result_id data =
     ebind (py_getitem_str data ''results'') (\<lambda>rs.
     ebind (py_getitem_0 rs) (\<lambda>first.
     ebind (py_getitem_str first ''id'') (\<lambda>ident.
     ebind (py_split ident CHR '':'') (\<lambda>parts.
     seq_index parts (- 1)))))"

text \<open>Lines 22 to 26.\<close>

definition ipni_id_of_data :: "pyval \<Rightarrow> exn + string option" where
  "ipni_id_of_data data =
     ebind (has_results data) (\<lambda>ok.
       if ok then ebind (first_result_id data) (\<lambda>ipni_id. Inr (Some ipni_id))
       else Inr None)"

text \<open>The function: the \<^verbatim>\<open>try\<close> block is \<open>attempt\<close>; the \<^verbatim>\<open>except\<close> clause prints
  the diagnostic line and returns \<^verbatim>\<open>None\<close>, and an exception of that print, which
  no handler covers, leaves the function.\<close>

definition fetch_ipni_id ::
    "world \<Rightarrow> string \<Rightarrow> event list \<Rightarrow> (exn + string option) \<times> event list" where
  "fetch_ipni_id w species_name t =
     (let rq = ipni_request species_name;
          t1 = t @ [Get rq];
          attempt =
            ebind (requests_get w t rq) (\<lambda>response.
            ebind (raise_for_status response) (\<lambda>_.
            ebind (json response) ipni_id_of_data))
      in case attempt of
           Inl e \<Rightarrow>
             (case py_print w (ErrorRetrievingIpniId species_name e) t1 of
                (Inl e', t2) \<Rightarrow> (Inl e', t2)
              | (Inr _, t2) \<Rightarrow> (Inr None, t2))
         | Inr ipni_id \<Rightarrow> (Inr ipni_id, t1))"


section \<open>The Extractor: \<^verbatim>\<open>fetch_synonyms_from_powo\<close>\<close>

definition powo_request :: "string \<Rightarrow> request" where
  "powo_request powo_url =
     \<lparr>url = powo_url,
      params = [],
      headers = [(''User-Agent'',
        ''Mozilla/5.0 (Windows NT 10.0; Win64; x64) AppleWebKit/537.36 (KHTML, like Gecko) Chrome/91.0.4472.124 Safari/537.36'')],
      timeout = 10\<rparr>"

text \<open>Lines 48 to 59, on the parsed document.\<close>

definition synonyms_of_soup :: "node \<Rightarrow> string list option" where
  "synonyms_of_soup soup =
     (case find_tag soup ''section'' [(''id'', ''synonyms'')] of
        None \<Rightarrow> None
      | Some synonyms_section \<Rightarrow>
          (case find_tag synonyms_section ''ul'' [(''class'', ''c-synonym-list'')] of
             None \<Rightarrow> None
           | Some synonyms_list \<Rightarrow>
               Some (map (\<lambda>li. strip (get_text li)) (find_all synonyms_list ''li''))))"

definition fetch_synonyms_from_powo ::
    "world \<Rightarrow> string \<Rightarrow> event list \<Rightarrow> (exn + string list option) \<times> event list" where
  "fetch_synonyms_from_powo w powo_url t =
     (let rq = powo_request powo_url;
          t1 = t @ [Get rq];
          attempt =
            ebind (requests_get w t rq) (\<lambda>response.
            ebind (raise_for_status response) (\<lambda>_.
            ebind (html response) (\<lambda>soup. Inr (synonyms_of_soup soup))))
      in case attempt of
           Inl e \<Rightarrow>
             (case py_print w (ErrorFetchingSynonyms powo_url e) t1 of
                (Inl e', t2) \<Rightarrow> (Inl e', t2)
              | (Inr _, t2) \<Rightarrow> (Inr None, t2))
         | Inr synonyms \<Rightarrow> (Inr synonyms, t1))"


section \<open>The Driver: \<^verbatim>\<open>main\<close>\<close>

text \<open>\<^verbatim>\<open>row['Species']\<close> on the Series of a row.\<close>

definition series_get :: "(string \<times> pyval) list \<Rightarrow> string \<Rightarrow> exn + pyval" where
  "series_get row label =
     (case map_of row label of None \<Rightarrow> Inl (KeyError label) | Some v \<Rightarrow> Inr v)"

definition powo_url_of :: "string \<Rightarrow> string" where
  "powo_url_of ipni_id = ''https://powo.science.kew.org/taxon/urn:lsid:ipni.org:names:'' @ ipni_id"

definition synonyms_field :: "string list option \<Rightarrow> string" where
  "synonyms_field synonyms =
     (case synonyms of
        None \<Rightarrow> ''None''
      | Some xs \<Rightarrow> if xs = [] then ''None'' else join ''; '' xs)"

text \<open>
  The body of the loop, lines 78 to 101, for one row: the record it appends to
  \<^verbatim>\<open>results\<close>, or the exception that leaves the loop (of the cell access or
  \<^verbatim>\<open>strip\<close> of line 78, of a print of line 79, 84 or 90, or one that left a fetch
  function). \<^verbatim>\<open>not ipni_id\<close> holds for \<^verbatim>\<open>None\<close> and for the empty string.
\<close>

definition main_body :: "world \<Rightarrow> (string \<times> pyval) list \<Rightarrow> event list \<Rightarrow> (exn + result) \<times> event list" where
  "main_body w row t =
     (case ebind (series_get row ''Species'') py_strip of
        Inl e \<Rightarrow> (Inl e, t)
      | Inr species_name \<Rightarrow>
     (case py_print w (ProcessingSpecies species_name) t of
        (Inl e, t1) \<Rightarrow> (Inl e, t1)
      | (Inr _, t1) \<Rightarrow>
     (case fetch_ipni_id w species_name t1 of
        (Inl e, t2) \<Rightarrow> (Inl e, t2)
      | (Inr ipni_id, t2) \<Rightarrow>
          (let not_found =
                 (case py_print w (NoIpniIdFound species_name) t2 of
                    (Inl e, t3) \<Rightarrow> (Inl e, t3)
                  | (Inr _, t3) \<Rightarrow>
                      (Inr \<lparr>Species = species_name, POWO_URL = ''Not Found'',
                            Synonyms = ''None''\<rparr>, t3))
           in case ipni_id of
                None \<Rightarrow> not_found
              | Some ident \<Rightarrow>
                  if ident = [] then not_found
                  else
                    (let powo_url = powo_url_of ident
                     in case py_print w (ConstructedPowoUrl powo_url) t2 of
                          (Inl e, t3) \<Rightarrow> (Inl e, t3)
                        | (Inr _, t3) \<Rightarrow>
                        (case fetch_synonyms_from_powo w powo_url t3 of
                           (Inl e, t4) \<Rightarrow> (Inl e, t4)
                         | (Inr synonyms, t4) \<Rightarrow>
                             (Inr \<lparr>Species = species_name, POWO_URL = powo_url,
                                   Synonyms = synonyms_field synonyms\<rparr>,
                              t4 @ [Sleep 2])))))))"

text \<open>The loop of lines 76 to 101 over the rows, with the list \<^verbatim>\<open>results\<close>.\<close>

fun main_loop ::
    "world \<Rightarrow> (string \<times> pyval) list list \<Rightarrow> result list \<Rightarrow> event list \<Rightarrow> (exn + result list) \<times> event list" where
  "main_loop w [] results t = (Inr results, t)"
| "main_loop w (row # rest) results t =
     (case main_body w row t of
        (Inl e, t') \<Rightarrow> (Inl e, t')
      | (Inr r, t') \<Rightarrow> main_loop w rest (results @ [r]) t')"

text \<open>Lines 70 to 106.\<close>

definition main :: "world \<Rightarrow> string \<Rightarrow> string \<Rightarrow> event list \<Rightarrow> (exn + unit) \<times> event list" where
  "main w input_csv output_csv t =
     (case read_csv w input_csv of
        Inl e \<Rightarrow> (Inl e, t)
      | Inr species_df \<Rightarrow>
          if ''Species'' \<notin> set (columns species_df)
          then (Inl (ValueError ''The input file must contain a 'Species' column.''), t)
          else
            (case main_loop w (rows species_df) [] t of
               (Inl e, t') \<Rightarrow> (Inl e, t')
             | (Inr results, t') \<Rightarrow>
                 (case to_csv w output_csv results of
                    Some e \<Rightarrow> (Inl e, t')
                  | None \<Rightarrow> py_print w (ResultsSaved output_csv) (t' @ [ToCsv output_csv results]))))"


section \<open>Reading a trace\<close>

text \<open>The requests issued, the sleeps taken and the files written, in order.\<close>

definition gets :: "event list \<Rightarrow> request list" where
  "gets t = concat (map (\<lambda>e. case e of Get rq \<Rightarrow> [rq] | _ \<Rightarrow> []) t)"

definition sleeps :: "event list \<Rightarrow> nat list" where
  "sleeps t = concat (map (\<lambda>e. case e of Sleep d \<Rightarrow> [d] | _ \<Rightarrow> []) t)"

definition written :: "event list \<Rightarrow> (string \<times> result list) list" where
  "written t = concat (map (\<lambda>e. case e of ToCsv path rs \<Rightarrow> [(path, rs)] | _ \<Rightarrow> []) t)"


definition constructed :: "event list \<Rightarrow> string list" where
  "constructed t = concat (map (\<lambda>e. case e of Print (ConstructedPowoUrl u) \<Rightarrow> [u] | _ \<Rightarrow> []) t)"


section \<open>Sample worlds\<close>

text \<open>A world that reads one fixed data frame, answers every request to the IPNI
  search endpoint in one way and every other request in another, whose standard
  output encodes every character and whose output path can be written; a console
  that encodes ASCII only; a disk that cannot be written; exceptions whose message is
  not ASCII.\<close>

definition json_response :: "pyval \<Rightarrow> response" where
  "json_response v = \<lparr>status_code = 200, json = Inr v, html = Inr (Tag ''[document]'' [] [])\<rparr>"

definition html_response :: "node \<Rightarrow> response" where
  "html_response doc = \<lparr>status_code = 200, json = Inl JSONDecodeError, html = Inr doc\<rparr>"

definition mock_world :: "dataframe \<Rightarrow> (exn + response) \<Rightarrow> (exn + response) \<Rightarrow> world" where
  "mock_world df registry page =
     \<lparr>read_csv = (\<lambda>path. Inr df),
      requests_get = (\<lambda>t rq. if url rq = ''https://www.ipni.org/api/1/search'' then registry else page),
      stdout_encodes = (\<lambda>c. True),
      exn_str = (\<lambda>e. ''error''),
      to_csv = (\<lambda>path records. None)\<rparr>"

definition ascii_console :: "world \<Rightarrow> world" where
  "ascii_console w = w\<lparr>stdout_encodes := (\<lambda>c. False)\<rparr>"

definition full_disk :: "world \<Rightarrow> world" where
  "full_disk w = w\<lparr>to_csv := (\<lambda>path records. Some (OSError ''No space left on device''))\<rparr>"

definition localized_errors :: "world \<Rightarrow> world" where
  "localized_errors w =
     w\<lparr>exn_str := (\<lambda>e. ''Zeit'' @ [CHR 0xFC] @ ''berschreitung der Verbindung'')\<rparr>"

definition mint_name :: string where
  "mint_name = ''Mentha '' @ [CHR 0xD7] @ '' piperita''"

definition page_with_script :: node where
  "page_with_script =
     Tag ''[document]'' [] [Tag ''html'' [] [Tag ''body'' [] [
       Tag ''section'' [(''id'', Single ''synonyms'')] [
         Tag ''ul'' [(''class'', Multi [''c-synonym-list''])] [
           Tag ''li'' [] [NavigableString ''Quercus alba'',
                         Tag ''script'' [] [Script ''var x = 1;'']]]]]]]"

definition species_frame :: "pyval list \<Rightarrow> dataframe" where
  "species_frame cells = \<lparr>columns = [''Species''], rows = map (\<lambda>c. [(''Species'', c)]) cells\<rparr>"

definition names_frame :: dataframe where
  "names_frame = \<lparr>columns = [''Name''], rows = [[(''Name'', PStr ''Quercus robur'')]]\<rparr>"


definition registry_12345 :: pyval where
  "registry_12345 =
     PDict [(''results'', PList [PDict [(''id'', PStr ''urn:lsid:ipni.org:names:12345'')]])]"

definition page_two_synonyms :: node where
  "page_two_synonyms =
     Tag ''[document]'' [] [Tag ''html'' [] [Tag ''body'' [] [
       Tag ''section'' [(''id'', Single ''synonyms'')] [
         Tag ''ul'' [(''class'', Multi [''c-synonym-list''])] [
           Tag ''li'' [] [NavigableString ''A''],
           Tag ''li'' [] [NavigableString ''B'']]]]]]"

definition page_empty_list :: node where
  "page_empty_list =
     Tag ''[document]'' [] [Tag ''html'' [] [Tag ''body'' [] [
       Tag ''section'' [(''id'', Single ''synonyms'')] [
         Tag ''ul'' [(''class'', Multi [''c-synonym-list''])] []]]]]"

definition oak_row :: "(string \<times> pyval) list" where
  "oak_row = [(''Species'', PStr '' Quercus robur '')]"

definition offline :: "exn + response" where
  "offline = Inl (RequestException ''offline'')"


definition page_no_section :: node where
  "page_no_section =
     Tag ''[document]'' [] [Tag ''html'' [] [Tag ''body'' [] [
       Tag ''section'' [(''id'', Single ''distribution'')] [
         Tag ''ul'' [(''class'', Multi [''c-synonym-list''])] [
           Tag ''li'' [] [NavigableString ''A'']]]]]]"

definition page_no_list :: node where
  "page_no_list =
     Tag ''[document]'' [] [Tag ''html'' [] [Tag ''body'' [] [
       Tag ''section'' [(''id'', Single ''synonyms'')] [
         Tag ''ul'' [(''class'', Multi [''c-other-list''])] [
           Tag ''li'' [] [NavigableString ''A'']]]]]]"

definition status_response :: "nat \<Rightarrow> response" where
  "status_response code =
     \<lparr>status_code = code, json = Inl JSONDecodeError, html = Inr (Tag ''[document]'' [] [])\<rparr>"

definition unparsed_response :: response where
  "unparsed_response = \<lparr>status_code = 200, json = Inl JSONDecodeError, html = Inl ParserError\<rparr>"

definition registry_colon :: pyval where
  "registry_colon = PDict [(''results'', PList [PDict [(''id'', PStr ''urn:lsid:ipni.org:names:'')]])]"


definition blank_cell_frame :: dataframe where
  "blank_cell_frame = species_frame [PStr ''Quercus robur'', PFloat NaN]"

definition not_modified_response :: "pyval \<Rightarrow> response" where
  "not_modified_response v =
     \<lparr>status_code = 304, json = Inr v, html = Inr (Tag ''[document]'' [] [])\<rparr>"


section \<open>Basic facts\<close>

lemma ebind_simps [simp]: "ebind (Inl e) f = Inl e" "ebind (Inr x) f = f x"
  by (simp_all add: ebind_def)

lemma gets_simps [simp]:
  "gets [] = []" "gets (t @ u) = gets t @ gets u"
  "gets (Get rq # t) = rq # gets t" "gets (Print l # t) = gets t"
  "gets (Sleep d # t) = gets t" "gets (ToCsv p rs # t) = gets t"
  by (simp_all add: gets_def)

lemma sleeps_simps [simp]:
  "sleeps [] = []" "sleeps (t @ u) = sleeps t @ sleeps u"
  "sleeps (Get rq # t) = sleeps t" "sleeps (Print l # t) = sleeps t"
  "sleeps (Sleep d # t) = d # sleeps t" "sleeps (ToCsv p rs # t) = sleeps t"
  by (simp_all add: sleeps_def)

lemma written_simps [simp]:
  "written [] = []" "written (t @ u) = written t @ written u"
  "written (Get rq # t) = written t" "written (Print l # t) = written t"
  "written (Sleep d # t) = written t" "written (ToCsv p rs # t) = (p, rs) # written t"
  by (simp_all add: written_def)

lemma constructed_simps [simp]:
  "constructed [] = []" "constructed (t @ u) = constructed t @ constructed u"
  "constructed (Get rq # t) = constructed t"
  "constructed (Print (ConstructedPowoUrl v) # t) = v # constructed t"
  "constructed (Print (ErrorRetrievingIpniId n e) # t) = constructed t"
  "constructed (Print (ErrorFetchingSynonyms n e) # t) = constructed t"
  "constructed (Print (ProcessingSpecies n) # t) = constructed t"
  "constructed (Print (NoIpniIdFound n) # t) = constructed t"
  "constructed (Print (ResultsSaved n) # t) = constructed t"
  "constructed (Sleep d # t) = constructed t" "constructed (ToCsv p rs # t) = constructed t"
  by (simp_all add: constructed_def)

text \<open>Printing: a line made of a fixed ASCII text and one string can be printed exactly
  when the string can be encoded.\<close>

lemma py_print_ok [simp]: "can_print w l \<Longrightarrow> py_print w l t = (Inr (), t @ [Print l])"
  by (simp add: py_print_def)

lemma py_print_raises [simp]:
  "\<not> can_print w l \<Longrightarrow> py_print w l t = (Inl UnicodeEncodeError, t)"
  by (simp add: py_print_def)

lemma can_print_one_string:
  "can_print w (ProcessingSpecies n) = list_all (encodable w) n"
  "can_print w (NoIpniIdFound n) = list_all (encodable w) n"
  "can_print w (ConstructedPowoUrl n) = list_all (encodable w) n"
  "can_print w (ResultsSaved n) = list_all (encodable w) n"
  by (simp_all add: can_print_def encodable_def)

lemma can_print_no_id: "can_print w (ProcessingSpecies n) \<Longrightarrow> can_print w (NoIpniIdFound n)"
  by (simp add: can_print_one_string)

text \<open>Each of the two fetch functions issues exactly one request and then returns
  what its \<^verbatim>\<open>try\<close> block returned, or prints its diagnostic line and returns
  \<^verbatim>\<open>None\<close>, or, when that line cannot be printed, raises.\<close>

lemma fetch_ipni_id_shape:
  "(\<exists>r. fetch_ipni_id w n t = (Inr r, t @ [Get (ipni_request n)]))
   \<or> (\<exists>e. can_print w (ErrorRetrievingIpniId n e) \<and> fetch_ipni_id w n t =
          (Inr None, t @ [Get (ipni_request n), Print (ErrorRetrievingIpniId n e)]))
   \<or> (\<exists>e. \<not> can_print w (ErrorRetrievingIpniId n e) \<and> fetch_ipni_id w n t =
          (Inl UnicodeEncodeError, t @ [Get (ipni_request n)]))"
  by (auto simp: fetch_ipni_id_def Let_def py_print_def split: sum.split)

lemma fetch_synonyms_shape:
  "(\<exists>r. fetch_synonyms_from_powo w u t = (Inr r, t @ [Get (powo_request u)]))
   \<or> (\<exists>e. can_print w (ErrorFetchingSynonyms u e) \<and> fetch_synonyms_from_powo w u t =
          (Inr None, t @ [Get (powo_request u), Print (ErrorFetchingSynonyms u e)]))
   \<or> (\<exists>e. \<not> can_print w (ErrorFetchingSynonyms u e) \<and> fetch_synonyms_from_powo w u t =
          (Inl UnicodeEncodeError, t @ [Get (powo_request u)]))"
  by (auto simp: fetch_synonyms_from_powo_def Let_def py_print_def split: sum.split)

lemma fetch_ipni_id_gets: "gets (snd (fetch_ipni_id w n t)) = gets t @ [ipni_request n]"
  using fetch_ipni_id_shape [of w n t] by auto

lemma fetch_synonyms_gets:
  "gets (snd (fetch_synonyms_from_powo w u t)) = gets t @ [powo_request u]"
  using fetch_synonyms_shape [of w u t] by auto

lemma fetch_ipni_id_quiet:
  "sleeps (snd (fetch_ipni_id w n t)) = sleeps t
   \<and> constructed (snd (fetch_ipni_id w n t)) = constructed t
   \<and> written (snd (fetch_ipni_id w n t)) = written t"
  using fetch_ipni_id_shape [of w n t] by auto

lemma fetch_synonyms_quiet:
  "sleeps (snd (fetch_synonyms_from_powo w u t)) = sleeps t
   \<and> constructed (snd (fetch_synonyms_from_powo w u t)) = constructed t
   \<and> written (snd (fetch_synonyms_from_powo w u t)) = written t"
  using fetch_synonyms_shape [of w u t] by auto

lemma fetch_ipni_id_raises_only_unicode:
  "fetch_ipni_id w n t = (Inl e, t') \<Longrightarrow> e = UnicodeEncodeError"
  using fetch_ipni_id_shape [of w n t] by auto

lemma fetch_synonyms_raises_only_unicode:
  "fetch_synonyms_from_powo w u t = (Inl e, t') \<Longrightarrow> e = UnicodeEncodeError"
  using fetch_synonyms_shape [of w u t] by auto

section \<open>The loop body on one row\<close>

lemma main_body_raises:
  assumes "\<forall>s. map_of row ''Species'' \<noteq> Some (PStr s)"
  shows "\<exists>e. main_body w row t = (Inl e, t)"
proof (cases "map_of row ''Species''")
  case None
  then show ?thesis by (simp add: main_body_def series_get_def)
next
  case (Some v)
  with assms have "\<forall>s. v \<noteq> PStr s" by simp
  then have "\<exists>e. py_strip v = Inl e" by (cases v) simp_all
  with Some show ?thesis by (auto simp: main_body_def series_get_def)
qed

lemma main_body_name_unprintable:
  assumes "map_of row ''Species'' = Some (PStr s)"
    and "\<not> can_print w (ProcessingSpecies (strip s))"
  shows "main_body w row t = (Inl UnicodeEncodeError, t)"
  using assms by (simp add: main_body_def series_get_def)

lemma main_body_resolver_raises:
  assumes "map_of row ''Species'' = Some (PStr s)"
    and "can_print w (ProcessingSpecies (strip s))"
    and "fetch_ipni_id w (strip s) (t @ [Print (ProcessingSpecies (strip s))]) = (Inl e, t2)"
  shows "main_body w row t = (Inl e, t2)"
  using assms by (simp add: main_body_def series_get_def)

lemma main_body_not_found:
  assumes "map_of row ''Species'' = Some (PStr s)"
    and "can_print w (ProcessingSpecies (strip s))"
    and "fetch_ipni_id w (strip s) (t @ [Print (ProcessingSpecies (strip s))]) = (Inr ipni_id, t2)"
    and "ipni_id = None \<or> ipni_id = Some []"
  shows "main_body w row t =
           (Inr \<lparr>Species = strip s, POWO_URL = ''Not Found'', Synonyms = ''None''\<rparr>,
            t2 @ [Print (NoIpniIdFound (strip s))])"
  using assms can_print_no_id [of w "strip s"]
  by (auto simp: main_body_def series_get_def Let_def)

lemma main_body_url_unprintable:
  assumes "map_of row ''Species'' = Some (PStr s)"
    and "can_print w (ProcessingSpecies (strip s))"
    and "fetch_ipni_id w (strip s) (t @ [Print (ProcessingSpecies (strip s))]) = (Inr (Some ident), t2)"
    and "ident \<noteq> []"
    and "\<not> can_print w (ConstructedPowoUrl (powo_url_of ident))"
  shows "main_body w row t = (Inl UnicodeEncodeError, t2)"
  using assms by (simp add: main_body_def series_get_def Let_def)

lemma main_body_extractor_raises:
  assumes "map_of row ''Species'' = Some (PStr s)"
    and "can_print w (ProcessingSpecies (strip s))"
    and "fetch_ipni_id w (strip s) (t @ [Print (ProcessingSpecies (strip s))]) = (Inr (Some ident), t2)"
    and "ident \<noteq> []"
    and "can_print w (ConstructedPowoUrl (powo_url_of ident))"
    and "fetch_synonyms_from_powo w (powo_url_of ident)
           (t2 @ [Print (ConstructedPowoUrl (powo_url_of ident))]) = (Inl e, t4)"
  shows "main_body w row t = (Inl e, t4)"
  using assms by (simp add: main_body_def series_get_def Let_def)

lemma main_body_found:
  assumes "map_of row ''Species'' = Some (PStr s)"
    and "can_print w (ProcessingSpecies (strip s))"
    and "fetch_ipni_id w (strip s) (t @ [Print (ProcessingSpecies (strip s))]) = (Inr (Some ident), t2)"
    and "ident \<noteq> []"
    and "can_print w (ConstructedPowoUrl (powo_url_of ident))"
    and "fetch_synonyms_from_powo w (powo_url_of ident)
           (t2 @ [Print (ConstructedPowoUrl (powo_url_of ident))]) = (Inr synonyms, t4)"
  shows "main_body w row t =
           (Inr \<lparr>Species = strip s, POWO_URL = powo_url_of ident,
                 Synonyms = synonyms_field synonyms\<rparr>,
            t4 @ [Sleep 2])"
  using assms by (simp add: main_body_def series_get_def Let_def)

text \<open>What a row can do to the sleeps, the URLs constructed and the files written.\<close>

lemma main_body_outcomes:
  "(\<exists>r. fst (main_body w row t) = Inr r
       \<and> sleeps (snd (main_body w row t)) = sleeps t
       \<and> constructed (snd (main_body w row t)) = constructed t
       \<and> written (snd (main_body w row t)) = written t)
   \<or> (\<exists>r u. fst (main_body w row t) = Inr r
       \<and> sleeps (snd (main_body w row t)) = sleeps t @ [2]
       \<and> constructed (snd (main_body w row t)) = constructed t @ [u]
       \<and> written (snd (main_body w row t)) = written t)
   \<or> (\<exists>e. fst (main_body w row t) = Inl e
       \<and> sleeps (snd (main_body w row t)) = sleeps t
       \<and> constructed (snd (main_body w row t)) = constructed t
       \<and> written (snd (main_body w row t)) = written t)
   \<or> (\<exists>u. fst (main_body w row t) = Inl UnicodeEncodeError
       \<and> sleeps (snd (main_body w row t)) = sleeps t
       \<and> constructed (snd (main_body w row t)) = constructed t @ [u]
       \<and> written (snd (main_body w row t)) = written t)"
proof (cases "\<exists>s. map_of row ''Species'' = Some (PStr s)")
  case False
  then obtain e where "main_body w row t = (Inl e, t)"
    using main_body_raises [of row w t] by blast
  then show ?thesis by simp
next
  case True
  then obtain s where c: "map_of row ''Species'' = Some (PStr s)" by blast
  show ?thesis
  proof (cases "can_print w (ProcessingSpecies (strip s))")
    case False
    then show ?thesis using main_body_name_unprintable [OF c] by simp
  next
    case p: True
    let ?t1 = "t @ [Print (ProcessingSpecies (strip s))]"
    obtain res t2 where f: "fetch_ipni_id w (strip s) ?t1 = (res, t2)"
      by (cases "fetch_ipni_id w (strip s) ?t1")
    have q2: "sleeps t2 = sleeps t \<and> constructed t2 = constructed t \<and> written t2 = written t"
      using fetch_ipni_id_quiet [of w "strip s" ?t1] f by simp
    show ?thesis
    proof (cases res)
      case (Inl e)
      then show ?thesis using main_body_resolver_raises [OF c p] f q2 by simp
    next
      case (Inr ipni_id)
      show ?thesis
      proof (cases "ipni_id = None \<or> ipni_id = Some []")
        case True
        then show ?thesis using main_body_not_found [OF c p] f Inr q2 by simp
      next
        case False
        then obtain ident where i: "ipni_id = Some ident" "ident \<noteq> []" by (cases ipni_id) auto
        from f Inr i have f': "fetch_ipni_id w (strip s) ?t1 = (Inr (Some ident), t2)" by simp
        show ?thesis
        proof (cases "can_print w (ConstructedPowoUrl (powo_url_of ident))")
          case False
          then show ?thesis using main_body_url_unprintable [OF c p f' i(2)] q2 by simp
        next
          case u: True
          let ?t3 = "t2 @ [Print (ConstructedPowoUrl (powo_url_of ident))]"
          obtain syn t4 where g: "fetch_synonyms_from_powo w (powo_url_of ident) ?t3 = (syn, t4)"
            by (cases "fetch_synonyms_from_powo w (powo_url_of ident) ?t3")
          have q4: "sleeps t4 = sleeps t \<and> constructed t4 = constructed t @ [powo_url_of ident]
                     \<and> written t4 = written t"
            using fetch_synonyms_quiet [of w "powo_url_of ident" ?t3] g q2 by simp
          show ?thesis
          proof (cases syn)
            case (Inl e)
            then have "e = UnicodeEncodeError"
              using fetch_synonyms_raises_only_unicode g by blast
            then show ?thesis
              using main_body_extractor_raises [OF c p f' i(2) u] g Inl q4 by simp
          next
            case (Inr synonyms)
            then show ?thesis
              using main_body_found [OF c p f' i(2) u] g q4 by simp
          qed
        qed
      qed
    qed
  qed
qed


lemma main_body_quiet_found:
  assumes "map_of row ''Species'' = Some (PStr s)"
    and "can_print w (ProcessingSpecies (strip s))"
    and "fetch_ipni_id w (strip s) (t @ [Print (ProcessingSpecies (strip s))]) = (Inr (Some ident), t2)"
    and "ident \<noteq> []"
    and "can_print w (ConstructedPowoUrl (powo_url_of ident))"
  shows "constructed (snd (main_body w row t)) = constructed t @ [powo_url_of ident]
       \<and> gets (snd (main_body w row t)) = gets t @ [ipni_request (strip s), powo_request (powo_url_of ident)]
       \<and> (\<forall>r. fst (main_body w row t) = Inr r \<longrightarrow>
             sleeps (snd (main_body w row t)) = sleeps t @ [2]
             \<and> Species r = strip s \<and> POWO_URL r = powo_url_of ident)"
proof -
  let ?t1 = "t @ [Print (ProcessingSpecies (strip s))]"
  let ?t3 = "t2 @ [Print (ConstructedPowoUrl (powo_url_of ident))]"
  have q2: "sleeps t2 = sleeps t \<and> constructed t2 = constructed t"
    using fetch_ipni_id_quiet [of w "strip s" ?t1] assms(3) by simp
  have g2: "gets t2 = gets t @ [ipni_request (strip s)]"
    using fetch_ipni_id_gets [of w "strip s" ?t1] assms(3) by simp
  obtain syn t4 where g: "fetch_synonyms_from_powo w (powo_url_of ident) ?t3 = (syn, t4)"
    by (cases "fetch_synonyms_from_powo w (powo_url_of ident) ?t3")
  have q4: "sleeps t4 = sleeps t \<and> constructed t4 = constructed t @ [powo_url_of ident]"
    using fetch_synonyms_quiet [of w "powo_url_of ident" ?t3] g q2 by simp
  have g4: "gets t4 = gets t @ [ipni_request (strip s), powo_request (powo_url_of ident)]"
    using fetch_synonyms_gets [of w "powo_url_of ident" ?t3] g g2 by simp
  show ?thesis
  proof (cases syn)
    case (Inl e)
    then show ?thesis
      using main_body_extractor_raises [OF assms] g q4 g4 by simp
  next
    case (Inr synonyms)
    then show ?thesis
      using main_body_found [OF assms] g q4 g4 by simp
  qed
qed

lemma request_kinds_differ: "powo_request u \<noteq> ipni_request n"
  by (simp add: powo_request_def ipni_request_def)

lemma join_concat: "join sep (x # xs) = x @ concat (map (\<lambda>y. sep @ y) xs)"
  by (induction xs arbitrary: x) simp_all


section \<open>The sample worlds, evaluated\<close>

lemma strip_oak: "strip '' Quercus robur '' = ''Quercus robur''"
  by (simp add: strip_def is_space_def)

lemma oak_cell: "map_of oak_row ''Species'' = Some (PStr '' Quercus robur '')"
  by (simp add: oak_row_def)

lemma strip_mint: "strip mint_name = mint_name"
  by (simp add: strip_def is_space_def mint_name_def)

lemma mock_prints [simp]: "can_print (mock_world df registry page) l"
  by (simp add: can_print_def encodable_def mock_world_def list_all_iff)

lemma mock_registry [simp]: "requests_get (mock_world df registry page) t (ipni_request n) = registry"
  by (simp add: mock_world_def ipni_request_def)

lemma mock_page [simp]:
  "requests_get (mock_world df registry page) t (powo_request (powo_url_of ident)) = page"
  by (simp add: mock_world_def powo_request_def powo_url_of_def)

lemma ascii_console_simps [simp]:
  "requests_get (ascii_console w) = requests_get w"
  "read_csv (ascii_console w) = read_csv w"
  "to_csv (ascii_console w) = to_csv w"
  "exn_str (ascii_console w) = exn_str w"
  "encodable (ascii_console w) c = ((of_char c :: nat) < 128)"
  by (simp_all add: ascii_console_def encodable_def)

lemma localized_errors_simps [simp]:
  "requests_get (localized_errors w) = requests_get w"
  "read_csv (localized_errors w) = read_csv w"
  "to_csv (localized_errors w) = to_csv w"
  "encodable (localized_errors w) c = encodable w c"
  "exn_str (localized_errors w) e = ''Zeit'' @ [CHR 0xFC] @ ''berschreitung der Verbindung''"
  by (simp_all add: localized_errors_def encodable_def)

lemma full_disk_encodable: "encodable (full_disk w) = encodable w"
  by (simp add: fun_eq_iff full_disk_def encodable_def)

lemma full_disk_simps [simp]:
  "requests_get (full_disk w) = requests_get w"
  "read_csv (full_disk w) = read_csv w"
  "to_csv (full_disk w) p rs = Some (OSError ''No space left on device'')"
  "can_print (full_disk w) l = can_print w l"
  by (simp_all add: can_print_def full_disk_encodable) (simp_all add: full_disk_def)

lemma mint_unprintable:
  "\<not> can_print (ascii_console w) (ProcessingSpecies mint_name)"
  "\<not> can_print (ascii_console w) (ErrorRetrievingIpniId mint_name e)"
  by (simp_all add: can_print_def mint_name_def)

lemma ipni_id_of_registry_12345: "ipni_id_of_data registry_12345 = Inr (Some ''12345'')"
  by (simp add: registry_12345_def ipni_id_of_data_def has_results_def first_result_id_def
      seq_index_def split_char_def)

lemma resolver_offline:
  "fetch_ipni_id (mock_world df offline page) n t =
     (Inr None, t @ [Get (ipni_request n), Print (ErrorRetrievingIpniId n (RequestException ''offline''))])"
  by (simp add: fetch_ipni_id_def offline_def)

lemma resolver_12345:
  "fetch_ipni_id (mock_world df (Inr (json_response registry_12345)) page) n t =
     (Inr (Some ''12345''), t @ [Get (ipni_request n)])"
  by (simp add: fetch_ipni_id_def json_response_def raise_for_status_def ipni_id_of_registry_12345)


lemma synonyms_of_page_two: "synonyms_of_soup page_two_synonyms = Some [''A'', ''B'']"
  by (simp add: synonyms_of_soup_def page_two_synonyms_def find_tag_def find_all_def
      strip_def is_space_def)

lemma synonyms_of_page_empty: "synonyms_of_soup page_empty_list = Some []"
  by (simp add: synonyms_of_soup_def page_empty_list_def find_tag_def find_all_def)

lemma synonyms_of_page_with_script: "synonyms_of_soup page_with_script = Some [''Quercus alba'']"
  by (simp add: synonyms_of_soup_def page_with_script_def find_tag_def find_all_def
      strip_def is_space_def)

lemma extractor_page:
  "fetch_synonyms_from_powo (mock_world df registry (Inr (html_response doc))) (powo_url_of ''12345'') t =
     (Inr (synonyms_of_soup doc), t @ [Get (powo_request (powo_url_of ''12345''))])"
  by (simp add: fetch_synonyms_from_powo_def html_response_def raise_for_status_def)

lemma page_no_section_has_none:
  "\<forall>x\<in>set (descendants page_no_section). \<not> matches_tag ''section'' [(''id'', ''synonyms'')] x"
  by (simp add: page_no_section_def)

lemma page_no_list_has_section:
  "find_tag page_no_list ''section'' [(''id'', ''synonyms'')] =
     Some (Tag ''section'' [(''id'', Single ''synonyms'')] [
         Tag ''ul'' [(''class'', Multi [''c-other-list''])] [
           Tag ''li'' [] [NavigableString ''A'']]])"
  by (simp add: page_no_list_def find_tag_def)

lemma page_no_list_has_none:
  "\<forall>x\<in>set (descendants (Tag ''section'' [(''id'', Single ''synonyms'')] [
         Tag ''ul'' [(''class'', Multi [''c-other-list''])] [
           Tag ''li'' [] [NavigableString ''A'']]])).
      \<not> matches_tag ''ul'' [(''class'', ''c-synonym-list'')] x"
  by simp


lemma ipni_id_of_registry_colon: "ipni_id_of_data registry_colon = Inr (Some [])"
  by (simp add: registry_colon_def ipni_id_of_data_def has_results_def first_result_id_def
      seq_index_def split_char_def)

lemma resolver_colon:
  "fetch_ipni_id (mock_world df (Inr (json_response registry_colon)) page) n t =
     (Inr (Some []), t @ [Get (ipni_request n)])"
  by (simp add: fetch_ipni_id_def json_response_def raise_for_status_def ipni_id_of_registry_colon)


section \<open>The missing column\<close>

text \<open>
  C5. If the data frame read from the input has no column named \<open>Species\<close>, \<open>main\<close>
  raises the \<^verbatim>\<open>ValueError\<close> of line 74 and nothing has happened by then: the trace
  is the one the run started with, so no row was processed (no line printed, no
  request issued) and no output file was written.
\<close>

theorem main_missing_species_column:
  assumes "read_csv w input_csv = Inr df" and "''Species'' \<notin> set (columns df)"
  shows "main w input_csv output_csv t =
           (Inl (ValueError ''The input file must contain a 'Species' column.''), t)"
  using assms by (simp add: main_def)

theorem main_missing_species_column_witness:
  "read_csv (mock_world names_frame offline offline) ''species_list.csv'' = Inr names_frame
   \<and> ''Species'' \<notin> set (columns names_frame)
   \<and> main (mock_world names_frame offline offline)
       ''species_list.csv'' ''species_results.csv'' [] =
       (Inl (ValueError ''The input file must contain a 'Species' column.''), [])"
proof -
  have r: "read_csv (mock_world names_frame offline offline) ''species_list.csv'' = Inr names_frame"
    by (simp add: mock_world_def)
  have c: "''Species'' \<notin> set (columns names_frame)"
    by (simp add: names_frame_def)
  show ?thesis
    using r c main_missing_species_column [OF r c, of "''species_results.csv''" "[]"] by simp
qed


section \<open>Rows without an identifier\<close>

text \<open>
  C2. For a row whose \<open>Species\<close> cell is a string \<open>s\<close>, that got as far as the call of
  the Resolver (the line of line 79 was printed) and for which \<open>fetch_ipni_id\<close>
  returns \<^verbatim>\<open>None\<close>, the loop body appends the record with \<open>POWO_URL = "Not Found"\<close> and
  \<open>Synonyms = "None"\<close>, and the Extractor is not called: the only request issued while
  the row is processed is the Resolver's request to the IPNI search endpoint, and a
  request of \<open>fetch_synonyms_from_powo\<close> (which always issues one, see
  \<open>fetch_synonyms_gets\<close>) is never that request. The line of line 84 needs no
  assumption: it has the characters of the name that line 79 printed.
\<close>

theorem resolver_absent_row:
  assumes "map_of row ''Species'' = Some (PStr s)"
    and "can_print w (ProcessingSpecies (strip s))"
    and "fetch_ipni_id w (strip s) (t @ [Print (ProcessingSpecies (strip s))]) = (Inr None, t2)"
  shows "main_body w row t =
           (Inr \<lparr>Species = strip s, POWO_URL = ''Not Found'', Synonyms = ''None''\<rparr>,
            t2 @ [Print (NoIpniIdFound (strip s))])
         \<and> gets (t2 @ [Print (NoIpniIdFound (strip s))]) = gets t @ [ipni_request (strip s)]
         \<and> (\<forall>u. powo_request u \<notin> set [ipni_request (strip s)])"
proof -
  have "gets t2 = gets t @ [ipni_request (strip s)]"
    using fetch_ipni_id_gets [of w "strip s" "t @ [Print (ProcessingSpecies (strip s))]"] assms(3)
    by simp
  then show ?thesis
    using main_body_not_found [OF assms(1) assms(2) assms(3)] request_kinds_differ by simp
qed

theorem resolver_absent_row_witness:
  "main_body (mock_world names_frame offline offline) oak_row [] =
     (Inr \<lparr>Species = ''Quercus robur'', POWO_URL = ''Not Found'', Synonyms = ''None''\<rparr>,
      [Print (ProcessingSpecies ''Quercus robur''),
       Get (ipni_request ''Quercus robur''),
       Print (ErrorRetrievingIpniId ''Quercus robur'' (RequestException ''offline'')),
       Print (NoIpniIdFound ''Quercus robur'')])"
proof -
  have p: "can_print (mock_world names_frame offline offline)
             (ProcessingSpecies (strip '' Quercus robur ''))"
    by simp
  have f: "fetch_ipni_id (mock_world names_frame offline offline) (strip '' Quercus robur '')
             ([] @ [Print (ProcessingSpecies (strip '' Quercus robur ''))]) =
           (Inr None, [Print (ProcessingSpecies ''Quercus robur''),
                   Get (ipni_request ''Quercus robur''),
                   Print (ErrorRetrievingIpniId ''Quercus robur'' (RequestException ''offline''))])"
    by (simp add: resolver_offline strip_oak)
  from resolver_absent_row [OF oak_cell p f] show ?thesis
    by (simp add: strip_oak)
qed


section \<open>Rows with an identifier\<close>

text \<open>
  C3, as amended. For a row whose Resolver returned a non-empty identifier \<open>ident\<close>
  and whose Extractor was called and returned (the lines of lines 79 and 90 were
  printed), the record appended has the constructed taxon URL in \<open>POWO_URL\<close>; its
  \<open>Synonyms\<close> field is \<open>"None"\<close> when the Extractor returned \<^verbatim>\<open>None\<close>, and when it
  returned a non-empty list the field is the first string followed by each further
  string with \<open>"; "\<close> in front of it, so that \<open>["A", "B"]\<close> gives \<open>"A; B"\<close>.

  The identifier must be non-empty: a Resolver that returns the empty string has
  not returned \<^verbatim>\<open>None\<close>, and the row is recorded with \<open>"Not Found"\<close>, no URL
  constructed (line 83). And the Extractor must return: when it fails and cannot
  print its diagnostic line, the exception leaves the loop and the row has no
  record at all. The evaluation after the theorem shows both.
\<close>

theorem synonyms_field_of_row:
  assumes "map_of row ''Species'' = Some (PStr s)"
    and "can_print w (ProcessingSpecies (strip s))"
    and "fetch_ipni_id w (strip s) (t @ [Print (ProcessingSpecies (strip s))]) = (Inr (Some ident), t2)"
    and "ident \<noteq> []"
    and "can_print w (ConstructedPowoUrl
           (''https://powo.science.kew.org/taxon/urn:lsid:ipni.org:names:'' @ ident))"
    and "fetch_synonyms_from_powo w
           (''https://powo.science.kew.org/taxon/urn:lsid:ipni.org:names:'' @ ident)
           (t2 @ [Print (ConstructedPowoUrl
              (''https://powo.science.kew.org/taxon/urn:lsid:ipni.org:names:'' @ ident))])
         = (Inr synonyms, t4)"
  shows "\<exists>r. main_body w row t = (Inr r, t4 @ [Sleep 2])
           \<and> POWO_URL r = ''https://powo.science.kew.org/taxon/urn:lsid:ipni.org:names:'' @ ident
           \<and> (synonyms = None \<longrightarrow> Synonyms r = ''None'')
           \<and> (\<forall>x xs. synonyms = Some (x # xs) \<longrightarrow>
                 Synonyms r = x @ concat (map (\<lambda>y. ''; '' @ y) xs))
           \<and> (synonyms = Some [''A'', ''B''] \<longrightarrow> Synonyms r = ''A; B'')"
proof -
  have "main_body w row t =
           (Inr \<lparr>Species = strip s, POWO_URL = powo_url_of ident,
                 Synonyms = synonyms_field synonyms\<rparr>, t4 @ [Sleep 2])"
    using assms(5,6) by (intro main_body_found [OF assms(1-4)]) (simp_all add: powo_url_of_def)
  then show ?thesis
    by (auto simp: synonyms_field_def powo_url_of_def join_concat)
qed

theorem synonyms_field_of_row_witness:
  "\<exists>r. main_body (mock_world names_frame (Inr (json_response registry_12345))
                    (Inr (html_response page_two_synonyms))) oak_row [] =
         (Inr r,
          [Print (ProcessingSpecies ''Quercus robur''),
           Get (ipni_request ''Quercus robur''),
           Print (ConstructedPowoUrl ''https://powo.science.kew.org/taxon/urn:lsid:ipni.org:names:12345''),
           Get (powo_request ''https://powo.science.kew.org/taxon/urn:lsid:ipni.org:names:12345''),
           Sleep 2])
       \<and> POWO_URL r = ''https://powo.science.kew.org/taxon/urn:lsid:ipni.org:names:12345''
       \<and> Synonyms r = ''A; B''"
proof -
  let ?w = "mock_world names_frame (Inr (json_response registry_12345))
              (Inr (html_response page_two_synonyms))"
  have p: "can_print ?w (ProcessingSpecies (strip '' Quercus robur ''))" by simp
  have f: "fetch_ipni_id ?w (strip '' Quercus robur '')
             ([] @ [Print (ProcessingSpecies (strip '' Quercus robur ''))]) =
           (Inr (Some ''12345''), [Print (ProcessingSpecies ''Quercus robur''),
                           Get (ipni_request ''Quercus robur'')])"
    by (simp add: resolver_12345 strip_oak)
  have n: "''12345'' \<noteq> []" by simp
  have u: "can_print ?w (ConstructedPowoUrl
             (''https://powo.science.kew.org/taxon/urn:lsid:ipni.org:names:'' @ ''12345''))"
    by (rule mock_prints)
  have g: "fetch_synonyms_from_powo ?w
             (''https://powo.science.kew.org/taxon/urn:lsid:ipni.org:names:'' @ ''12345'')
             ([Print (ProcessingSpecies ''Quercus robur''), Get (ipni_request ''Quercus robur'')] @
              [Print (ConstructedPowoUrl
                 (''https://powo.science.kew.org/taxon/urn:lsid:ipni.org:names:'' @ ''12345''))]) =
           (Inr (Some [''A'', ''B'']),
            [Print (ProcessingSpecies ''Quercus robur''),
             Get (ipni_request ''Quercus robur''),
             Print (ConstructedPowoUrl ''https://powo.science.kew.org/taxon/urn:lsid:ipni.org:names:12345''),
             Get (powo_request ''https://powo.science.kew.org/taxon/urn:lsid:ipni.org:names:12345'')])"
    using extractor_page [of names_frame "Inr (json_response registry_12345)" page_two_synonyms]
    by (simp add: powo_url_of_def synonyms_of_page_two)
  from synonyms_field_of_row [OF oak_cell p f n u g] show ?thesis
    by simp
qed

theorem empty_identifier_row_counterexample:
  "fetch_ipni_id (mock_world names_frame (Inr (json_response registry_colon))
                    (Inr (html_response page_two_synonyms)))
     ''Quercus robur'' [Print (ProcessingSpecies ''Quercus robur'')] =
     (Inr (Some []), [Print (ProcessingSpecies ''Quercus robur''), Get (ipni_request ''Quercus robur'')])
   \<and> main_body (mock_world names_frame (Inr (json_response registry_colon))
                    (Inr (html_response page_two_synonyms))) oak_row [] =
     (Inr \<lparr>Species = ''Quercus robur'', POWO_URL = ''Not Found'', Synonyms = ''None''\<rparr>,
      [Print (ProcessingSpecies ''Quercus robur''), Get (ipni_request ''Quercus robur''),
       Print (NoIpniIdFound ''Quercus robur'')])
   \<and> ''Not Found'' \<noteq> ''https://powo.science.kew.org/taxon/urn:lsid:ipni.org:names:'' @ []
   \<and> fetch_ipni_id
       (localized_errors (ascii_console
          (mock_world names_frame (Inr (json_response registry_12345)) offline)))
       ''Quercus robur'' [Print (ProcessingSpecies ''Quercus robur'')] =
     (Inr (Some ''12345''),
      [Print (ProcessingSpecies ''Quercus robur''), Get (ipni_request ''Quercus robur'')])
   \<and> main_body
       (localized_errors (ascii_console
          (mock_world names_frame (Inr (json_response registry_12345)) offline)))
       oak_row [] =
     (Inl UnicodeEncodeError,
      [Print (ProcessingSpecies ''Quercus robur''), Get (ipni_request ''Quercus robur''),
       Print (ConstructedPowoUrl (powo_url_of ''12345'')),
       Get (powo_request (powo_url_of ''12345''))])"
proof -
  let ?w = "mock_world names_frame (Inr (json_response registry_colon))
              (Inr (html_response page_two_synonyms))"
  let ?v = "localized_errors (ascii_console
              (mock_world names_frame (Inr (json_response registry_12345)) offline))"
  have p: "can_print ?w (ProcessingSpecies (strip '' Quercus robur ''))" by simp
  have f: "fetch_ipni_id ?w (strip '' Quercus robur '')
             ([] @ [Print (ProcessingSpecies (strip '' Quercus robur ''))]) =
           (Inr (Some []), [Print (ProcessingSpecies ''Quercus robur''),
                           Get (ipni_request ''Quercus robur'')])"
    by (simp add: resolver_colon strip_oak)
  have e: "Some [] = None \<or> Some ([] :: string) = Some []" by simp
  have q: "can_print ?v (ProcessingSpecies (strip '' Quercus robur ''))"
    by (simp add: can_print_one_string strip_oak encodable_def)
  have g: "fetch_ipni_id ?v (strip '' Quercus robur '')
             ([] @ [Print (ProcessingSpecies (strip '' Quercus robur ''))]) =
           (Inr (Some ''12345''), [Print (ProcessingSpecies ''Quercus robur''),
                           Get (ipni_request ''Quercus robur'')])"
    by (simp add: fetch_ipni_id_def json_response_def raise_for_status_def
        ipni_id_of_registry_12345 strip_oak)
  have n: "''12345'' \<noteq> []" by simp
  have d: "\<not> can_print ?v (ErrorFetchingSynonyms (powo_url_of ''12345'') (RequestException ''offline''))"
    by (simp add: can_print_def)
  have h: "fetch_synonyms_from_powo ?v (powo_url_of ''12345'')
             ([Print (ProcessingSpecies ''Quercus robur''), Get (ipni_request ''Quercus robur'')] @
              [Print (ConstructedPowoUrl (powo_url_of ''12345''))]) =
           (Inl UnicodeEncodeError,
            [Print (ProcessingSpecies ''Quercus robur''), Get (ipni_request ''Quercus robur''),
             Print (ConstructedPowoUrl (powo_url_of ''12345'')),
             Get (powo_request (powo_url_of ''12345''))])"
    using d by (simp add: fetch_synonyms_from_powo_def offline_def)
  have k: "can_print ?v (ConstructedPowoUrl (powo_url_of ''12345''))"
    by (simp add: can_print_one_string powo_url_of_def encodable_def)
  from main_body_not_found [OF oak_cell p f e] f
       main_body_extractor_raises [OF oak_cell q g n k h] g
  show ?thesis
    by (simp add: strip_oak)
qed

text \<open>
  C9. When the Extractor returns the empty list, the record appended has
  \<open>Synonyms = "None"\<close>, the same record as when the Extractor returns \<^verbatim>\<open>None\<close>:
  line 97 tests the truth value of the list, not its presence. The row is one whose
  Extractor was called and returned: the lines of lines 79 and 90 were printed.
\<close>

theorem empty_synonym_list_is_none:
  assumes "map_of row ''Species'' = Some (PStr s)"
    and "can_print w (ProcessingSpecies (strip s))"
    and "fetch_ipni_id w (strip s) (t @ [Print (ProcessingSpecies (strip s))]) = (Inr (Some ident), t2)"
    and "ident \<noteq> []"
    and "can_print w (ConstructedPowoUrl (powo_url_of ident))"
    and "fetch_synonyms_from_powo w (powo_url_of ident)
           (t2 @ [Print (ConstructedPowoUrl (powo_url_of ident))]) = (Inr synonyms, t4)"
    and "synonyms = Some [] \<or> synonyms = None"
  shows "main_body w row t =
           (Inr \<lparr>Species = strip s, POWO_URL = powo_url_of ident, Synonyms = ''None''\<rparr>,
            t4 @ [Sleep 2])"
  using main_body_found [OF assms(1-6)] assms(7) by (auto simp: synonyms_field_def)

theorem empty_synonym_list_is_none_witness:
  "fetch_synonyms_from_powo
     (mock_world names_frame (Inr (json_response registry_12345)) (Inr (html_response page_empty_list)))
     (powo_url_of ''12345'')
     [Print (ProcessingSpecies ''Quercus robur''), Get (ipni_request ''Quercus robur''),
      Print (ConstructedPowoUrl (powo_url_of ''12345''))] =
     (Inr (Some []),
      [Print (ProcessingSpecies ''Quercus robur''), Get (ipni_request ''Quercus robur''),
       Print (ConstructedPowoUrl (powo_url_of ''12345'')),
       Get (powo_request (powo_url_of ''12345''))])
   \<and> main_body
       (mock_world names_frame (Inr (json_response registry_12345)) (Inr (html_response page_empty_list)))
       oak_row [] =
     (Inr \<lparr>Species = ''Quercus robur'', POWO_URL = powo_url_of ''12345'', Synonyms = ''None''\<rparr>,
      [Print (ProcessingSpecies ''Quercus robur''), Get (ipni_request ''Quercus robur''),
       Print (ConstructedPowoUrl (powo_url_of ''12345'')),
       Get (powo_request (powo_url_of ''12345'')),
       Sleep 2])"
proof -
  let ?w = "mock_world names_frame (Inr (json_response registry_12345))
              (Inr (html_response page_empty_list))"
  have p: "can_print ?w (ProcessingSpecies (strip '' Quercus robur ''))" by simp
  have f: "fetch_ipni_id ?w (strip '' Quercus robur '')
             ([] @ [Print (ProcessingSpecies (strip '' Quercus robur ''))]) =
           (Inr (Some ''12345''), [Print (ProcessingSpecies ''Quercus robur''),
                           Get (ipni_request ''Quercus robur'')])"
    by (simp add: resolver_12345 strip_oak)
  have n: "''12345'' \<noteq> []" by simp
  have u: "can_print ?w (ConstructedPowoUrl (powo_url_of ''12345''))" by simp
  have g: "fetch_synonyms_from_powo ?w (powo_url_of ''12345'')
             ([Print (ProcessingSpecies ''Quercus robur''), Get (ipni_request ''Quercus robur'')] @
              [Print (ConstructedPowoUrl (powo_url_of ''12345''))]) =
           (Inr (Some []),
            [Print (ProcessingSpecies ''Quercus robur''), Get (ipni_request ''Quercus robur''),
             Print (ConstructedPowoUrl (powo_url_of ''12345'')),
             Get (powo_request (powo_url_of ''12345''))])"
    by (simp add: extractor_page synonyms_of_page_empty)
  have e: "Some [] = Some [] \<or> Some ([] :: string list) = None" by simp
  from empty_synonym_list_is_none [OF oak_cell p f n u g e] g show ?thesis
    by (simp add: strip_oak)
qed


section \<open>The sleep between rows\<close>




section \<open>Decoding the search response\<close>

lemma split_acc_nonempty: "split_acc c acc s \<noteq> []"
  by (induction s arbitrary: acc) auto

lemma split_acc_snoc: "last (split_acc c acc (s @ [c])) = []"
  by (induction s arbitrary: acc) (auto simp: split_acc_nonempty)

lemma seq_index_last: "xs \<noteq> [] \<Longrightarrow> seq_index xs (- 1) = Inr (last xs)"
proof -
  assume n: "xs \<noteq> []"
  then have l: "Suc 0 \<le> length xs" by (cases xs) simp_all
  then have "nat (int (length xs) + - 1) = length xs - 1" by linarith
  with n l show ?thesis
    by (simp add: seq_index_def last_conv_nth)
qed

lemma seq_index_first: "seq_index (x # xs) 0 = Inr x"
  by (simp add: seq_index_def)

lemma has_results_dict:
  assumes "map_of d ''results'' = Some rs"
  shows "has_results (PDict d) = ebind (py_len rs) (\<lambda>n. Inr (n > 0))"
proof -
  from assms have "(''results'', rs) \<in> set d" by (rule map_of_SomeD)
  then have "d \<noteq> []" and "''results'' \<in> fst ` set d" by force+
  with assms show ?thesis by (simp add: has_results_def)
qed

lemma has_results_missing:
  assumes "map_of d ''results'' = None"
  shows "has_results (PDict d) = Inr False"
  using assms by (auto simp: has_results_def map_of_eq_None_iff)

lemma ipni_id_of_data_first:
  assumes "map_of d ''results'' = Some (PList (PDict item # others))"
    and "map_of item ''id'' = Some (PStr ident)"
  shows "ipni_id_of_data (PDict d) = Inr (Some (last (split_char CHR '':'' ident)))"
  using assms
  by (simp add: ipni_id_of_data_def has_results_dict first_result_id_def seq_index_first
      seq_index_last split_char_def split_acc_nonempty)

lemma ipni_id_of_data_missing:
  assumes "map_of d ''results'' = None"
  shows "ipni_id_of_data (PDict d) = Inr None"
  using assms by (simp add: ipni_id_of_data_def has_results_missing)

lemma ipni_id_of_data_empty:
  assumes "map_of d ''results'' = Some rs" and "py_len rs = Inr 0"
  shows "ipni_id_of_data (PDict d) = Inr None"
  using assms by (simp add: ipni_id_of_data_def has_results_dict)

lemma ipni_id_of_data_falsy: "\<not> truthy data \<Longrightarrow> ipni_id_of_data data = Inr None"
  by (simp add: ipni_id_of_data_def has_results_def)

text \<open>The only decoded bodies from which an identifier comes: an object whose
  \<open>results\<close> is a list that starts with an object whose \<open>id\<close> is a string.\<close>

lemma first_result_id_some:
  assumes "first_result_id data = Inr i"
  shows "\<exists>d item others ident. data = PDict d
           \<and> map_of d ''results'' = Some (PList (PDict item # others))
           \<and> map_of item ''id'' = Some (PStr ident)
           \<and> i = last (split_char CHR '':'' ident)"
proof (cases data)
  case (PDict d)
  show ?thesis
  proof (cases "map_of d ''results''")
    case None
    with PDict assms show ?thesis by (simp add: first_result_id_def)
  next
    case (Some rs)
    show ?thesis
    proof (cases rs)
      case (PList xs)
      show ?thesis
      proof (cases xs)
        case Nil
        with PDict Some PList assms show ?thesis
          by (simp add: first_result_id_def seq_index_def)
      next
        case (Cons x others)
        show ?thesis
        proof (cases x)
          case item: (PDict item)
          show ?thesis
          proof (cases "map_of item ''id''")
            case None
            with PDict Some PList Cons item assms show ?thesis
              by (simp add: first_result_id_def seq_index_first)
          next
            case v: (Some v)
            show ?thesis
            proof (cases v)
              case (PStr ident)
              with PDict Some PList Cons item v assms show ?thesis
                by (simp add: first_result_id_def seq_index_first seq_index_last
                    split_char_def split_acc_nonempty)
            qed (use PDict Some PList Cons item v assms in
                 \<open>simp_all add: first_result_id_def seq_index_first\<close>)
          qed
        qed (use PDict Some PList Cons assms in
             \<open>simp_all add: first_result_id_def seq_index_first\<close>)
      qed
    next
      case (PStr str)
      with PDict Some assms show ?thesis
        by (cases str) (simp_all add: first_result_id_def seq_index_def)
    qed (use PDict Some assms in \<open>simp_all add: first_result_id_def\<close>)
  qed
qed (use assms in \<open>simp_all add: first_result_id_def\<close>)

lemma ipni_id_of_data_some:
  "ipni_id_of_data data = Inr (Some i) \<longleftrightarrow>
     (\<exists>d item others ident. data = PDict d
           \<and> map_of d ''results'' = Some (PList (PDict item # others))
           \<and> map_of item ''id'' = Some (PStr ident)
           \<and> i = last (split_char CHR '':'' ident))"
proof
  assume a: "ipni_id_of_data data = Inr (Some i)"
  then have "first_result_id data = Inr i"
    by (auto simp: ipni_id_of_data_def ebind_def split: sum.splits if_splits)
  then show "\<exists>d item others ident. data = PDict d
           \<and> map_of d ''results'' = Some (PList (PDict item # others))
           \<and> map_of item ''id'' = Some (PStr ident)
           \<and> i = last (split_char CHR '':'' ident)"
    by (rule first_result_id_some)
next
  assume "\<exists>d item others ident. data = PDict d
           \<and> map_of d ''results'' = Some (PList (PDict item # others))
           \<and> map_of item ''id'' = Some (PStr ident)
           \<and> i = last (split_char CHR '':'' ident)"
  then show "ipni_id_of_data data = Inr (Some i)"
    using ipni_id_of_data_first by blast
qed

text \<open>The try block of each fetch function, case by case.\<close>

lemma fetch_ipni_id_raised:
  assumes "requests_get w t (ipni_request n) = Inl e
           \<or> (\<exists>resp. requests_get w t (ipni_request n) = Inr resp
                \<and> ((400 \<le> status_code resp \<and> status_code resp < 600
                      \<and> e = HTTPError (status_code resp))
                   \<or> ((status_code resp < 400 \<or> 600 \<le> status_code resp)
                        \<and> (json resp = Inl e
                            \<or> (\<exists>data. json resp = Inr data \<and> ipni_id_of_data data = Inl e)))))"
  shows "fetch_ipni_id w n t =
     (if can_print w (ErrorRetrievingIpniId n e)
      then (Inr None, t @ [Get (ipni_request n), Print (ErrorRetrievingIpniId n e)])
      else (Inl UnicodeEncodeError, t @ [Get (ipni_request n)]))"
  using assms by (auto simp: fetch_ipni_id_def raise_for_status_def)

lemma fetch_ipni_id_returns:
  assumes "requests_get w t (ipni_request n) = Inr resp"
    and "status_code resp < 400 \<or> 600 \<le> status_code resp"
    and "json resp = Inr data" and "ipni_id_of_data data = Inr r"
  shows "fetch_ipni_id w n t = (Inr r, t @ [Get (ipni_request n)])"
  using assms by (auto simp: fetch_ipni_id_def raise_for_status_def)

lemma fetch_ipni_id_some:
  "fetch_ipni_id w n t = (Inr (Some i), t') \<longleftrightarrow>
     (\<exists>resp d item others ident.
        requests_get w t (ipni_request n) = Inr resp
        \<and> (status_code resp < 400 \<or> 600 \<le> status_code resp)
        \<and> json resp = Inr (PDict d)
        \<and> map_of d ''results'' = Some (PList (PDict item # others))
        \<and> map_of item ''id'' = Some (PStr ident)
        \<and> i = last (split_char CHR '':'' ident)
        \<and> t' = t @ [Get (ipni_request n)])"
proof
  assume a: "fetch_ipni_id w n t = (Inr (Some i), t')"
  then obtain resp data where
    r: "requests_get w t (ipni_request n) = Inr resp"
      "status_code resp < 400 \<or> 600 \<le> status_code resp"
      "json resp = Inr data" "ipni_id_of_data data = Inr (Some i)"
      "t' = t @ [Get (ipni_request n)]"
    by (auto simp: fetch_ipni_id_def raise_for_status_def ebind_def py_print_def Let_def
        split: sum.splits if_splits)
  from r(4) obtain d item others ident where
    "data = PDict d" "map_of d ''results'' = Some (PList (PDict item # others))"
    "map_of item ''id'' = Some (PStr ident)" "i = last (split_char CHR '':'' ident)"
    using ipni_id_of_data_some [of data i] by blast
  with r show "\<exists>resp d item others ident.
        requests_get w t (ipni_request n) = Inr resp
        \<and> (status_code resp < 400 \<or> 600 \<le> status_code resp)
        \<and> json resp = Inr (PDict d)
        \<and> map_of d ''results'' = Some (PList (PDict item # others))
        \<and> map_of item ''id'' = Some (PStr ident)
        \<and> i = last (split_char CHR '':'' ident)
        \<and> t' = t @ [Get (ipni_request n)]"
    by blast
next
  assume "\<exists>resp d item others ident.
        requests_get w t (ipni_request n) = Inr resp
        \<and> (status_code resp < 400 \<or> 600 \<le> status_code resp)
        \<and> json resp = Inr (PDict d)
        \<and> map_of d ''results'' = Some (PList (PDict item # others))
        \<and> map_of item ''id'' = Some (PStr ident)
        \<and> i = last (split_char CHR '':'' ident)
        \<and> t' = t @ [Get (ipni_request n)]"
  then show "fetch_ipni_id w n t = (Inr (Some i), t')"
    using fetch_ipni_id_returns ipni_id_of_data_first by blast
qed

lemma fetch_synonyms_raised:
  assumes "requests_get w t (powo_request u) = Inl e
           \<or> (\<exists>resp. requests_get w t (powo_request u) = Inr resp
                \<and> ((400 \<le> status_code resp \<and> status_code resp < 600
                      \<and> e = HTTPError (status_code resp))
                   \<or> ((status_code resp < 400 \<or> 600 \<le> status_code resp)
                        \<and> html resp = Inl e)))"
  shows "fetch_synonyms_from_powo w u t =
     (if can_print w (ErrorFetchingSynonyms u e)
      then (Inr None, t @ [Get (powo_request u), Print (ErrorFetchingSynonyms u e)])
      else (Inl UnicodeEncodeError, t @ [Get (powo_request u)]))"
  using assms by (auto simp: fetch_synonyms_from_powo_def raise_for_status_def)

lemma fetch_synonyms_returns:
  assumes "requests_get w t (powo_request u) = Inr resp"
    and "status_code resp < 400 \<or> 600 \<le> status_code resp"
    and "html resp = Inr doc"
  shows "fetch_synonyms_from_powo w u t = (Inr (synonyms_of_soup doc), t @ [Get (powo_request u)])"
  using assms by (auto simp: fetch_synonyms_from_powo_def raise_for_status_def)

lemma find_tag_none:
  "find_tag root nm wanted = None \<longleftrightarrow> (\<forall>n\<in>set (descendants root). \<not> matches_tag nm wanted n)"
  by (auto simp: find_tag_def find_None_iff)

lemma synonyms_of_soup_no_section:
  assumes "\<forall>n\<in>set (descendants doc). \<not> matches_tag ''section'' [(''id'', ''synonyms'')] n"
  shows "synonyms_of_soup doc = None"
  using assms by (simp add: synonyms_of_soup_def find_tag_none [symmetric])

lemma synonyms_of_soup_no_list:
  assumes "find_tag doc ''section'' [(''id'', ''synonyms'')] = Some sec"
    and "\<forall>n\<in>set (descendants sec). \<not> matches_tag ''ul'' [(''class'', ''c-synonym-list'')] n"
  shows "synonyms_of_soup doc = None"
  using assms by (simp add: synonyms_of_soup_def find_tag_none [symmetric])

lemma synonyms_of_soup_some:
  "synonyms_of_soup doc = Some xs \<longleftrightarrow>
     (\<exists>sec lst. find_tag doc ''section'' [(''id'', ''synonyms'')] = Some sec
        \<and> find_tag sec ''ul'' [(''class'', ''c-synonym-list'')] = Some lst
        \<and> xs = map (\<lambda>li. strip (get_text li)) (find_all lst ''li''))"
  by (auto simp: synonyms_of_soup_def split: option.splits)

lemma fetch_synonyms_some:
  "fetch_synonyms_from_powo w u t = (Inr (Some xs), t') \<longleftrightarrow>
     (\<exists>resp doc sec lst.
        requests_get w t (powo_request u) = Inr resp
        \<and> (status_code resp < 400 \<or> 600 \<le> status_code resp)
        \<and> html resp = Inr doc
        \<and> find_tag doc ''section'' [(''id'', ''synonyms'')] = Some sec
        \<and> find_tag sec ''ul'' [(''class'', ''c-synonym-list'')] = Some lst
        \<and> xs = map (\<lambda>li. strip (get_text li)) (find_all lst ''li'')
        \<and> t' = t @ [Get (powo_request u)])"
proof
  assume "fetch_synonyms_from_powo w u t = (Inr (Some xs), t')"
  then obtain resp doc where
    r: "requests_get w t (powo_request u) = Inr resp"
      "status_code resp < 400 \<or> 600 \<le> status_code resp"
      "html resp = Inr doc" "synonyms_of_soup doc = Some xs"
      "t' = t @ [Get (powo_request u)]"
    by (auto simp: fetch_synonyms_from_powo_def raise_for_status_def ebind_def py_print_def Let_def
        split: sum.splits if_splits)
  then show "\<exists>resp doc sec lst.
        requests_get w t (powo_request u) = Inr resp
        \<and> (status_code resp < 400 \<or> 600 \<le> status_code resp)
        \<and> html resp = Inr doc
        \<and> find_tag doc ''section'' [(''id'', ''synonyms'')] = Some sec
        \<and> find_tag sec ''ul'' [(''class'', ''c-synonym-list'')] = Some lst
        \<and> xs = map (\<lambda>li. strip (get_text li)) (find_all lst ''li'')
        \<and> t' = t @ [Get (powo_request u)]"
    using synonyms_of_soup_some [of doc xs] by blast
next
  assume "\<exists>resp doc sec lst.
        requests_get w t (powo_request u) = Inr resp
        \<and> (status_code resp < 400 \<or> 600 \<le> status_code resp)
        \<and> html resp = Inr doc
        \<and> find_tag doc ''section'' [(''id'', ''synonyms'')] = Some sec
        \<and> find_tag sec ''ul'' [(''class'', ''c-synonym-list'')] = Some lst
        \<and> xs = map (\<lambda>li. strip (get_text li)) (find_all lst ''li'')
        \<and> t' = t @ [Get (powo_request u)]"
  then obtain resp doc where
    r: "requests_get w t (powo_request u) = Inr resp"
      "status_code resp < 400 \<or> 600 \<le> status_code resp"
      "html resp = Inr doc" "synonyms_of_soup doc = Some xs"
      "t' = t @ [Get (powo_request u)]"
    using synonyms_of_soup_some by blast
  then show "fetch_synonyms_from_powo w u t = (Inr (Some xs), t')"
    using fetch_synonyms_returns [OF r(1,2,3)] by simp
qed


section \<open>Failures inside the two fetch functions\<close>

text \<open>
  C4, as amended. \<open>fetch_ipni_id\<close> returns an identifier exactly when the response
  has a status outside 400 to 599 and its body decodes to an object whose \<open>results\<close>
  is a list starting with an object whose \<open>id\<close> is a string; \<open>fetch_synonyms_from_powo\<close>
  returns a list exactly when the response has such a status, the parser returns a
  document, and the document has the section and, in it, the list. In every other
  case, and so in every failure mode (an exception of \<^verbatim>\<open>requests.get\<close>, a status
  from 400 to 599, an exception of \<^verbatim>\<open>response.json()\<close> or of the HTML parser, an
  exception raised while the decoded body is read, a missing or empty \<open>results\<close>, a
  missing section or list), the function issues its one request and then returns
  \<^verbatim>\<open>None\<close>, having printed nothing or its one diagnostic line, provided that line
  can be printed. When the line cannot be printed, the \<^verbatim>\<open>UnicodeEncodeError\<close> of the
  \<^verbatim>\<open>print\<close> inside the \<^verbatim>\<open>except\<close> clause (lines 28 and 61) leaves the function.

  Two things in the claim as it was stated do not hold, as the evaluation after the
  theorem shows: an exception does reach the caller when the diagnostic line cannot
  be printed, and a status that is not a success but is outside 400 to 599 (304, say)
  is not a failure for \<^verbatim>\<open>raise_for_status\<close>, so that a usable body still gives an
  identifier.
\<close>

theorem fetch_failures_yield_none:
  "(\<forall>i t'. fetch_ipni_id w n t = (Inr (Some i), t') \<longleftrightarrow>
         (\<exists>resp d item others ident.
            requests_get w t (ipni_request n) = Inr resp
            \<and> (status_code resp < 400 \<or> 600 \<le> status_code resp)
            \<and> json resp = Inr (PDict d)
            \<and> map_of d ''results'' = Some (PList (PDict item # others))
            \<and> map_of item ''id'' = Some (PStr ident)
            \<and> i = last (split_char CHR '':'' ident)
            \<and> t' = t @ [Get (ipni_request n)]))
   \<and> ((\<exists>r. fetch_ipni_id w n t = (Inr r, t @ [Get (ipni_request n)]))
      \<or> (\<exists>e. can_print w (ErrorRetrievingIpniId n e) \<and> fetch_ipni_id w n t =
             (Inr None, t @ [Get (ipni_request n), Print (ErrorRetrievingIpniId n e)]))
      \<or> (\<exists>e. \<not> can_print w (ErrorRetrievingIpniId n e) \<and> fetch_ipni_id w n t =
             (Inl UnicodeEncodeError, t @ [Get (ipni_request n)])))
   \<and> (\<forall>e. (requests_get w t (ipni_request n) = Inl e
           \<or> (\<exists>resp. requests_get w t (ipni_request n) = Inr resp
                \<and> ((400 \<le> status_code resp \<and> status_code resp < 600
                      \<and> e = HTTPError (status_code resp))
                   \<or> ((status_code resp < 400 \<or> 600 \<le> status_code resp)
                        \<and> (json resp = Inl e
                            \<or> (\<exists>data. json resp = Inr data \<and> ipni_id_of_data data = Inl e))))))
          \<and> can_print w (ErrorRetrievingIpniId n e) \<longrightarrow>
        fetch_ipni_id w n t =
          (Inr None, t @ [Get (ipni_request n), Print (ErrorRetrievingIpniId n e)]))
   \<and> (\<forall>resp data. requests_get w t (ipni_request n) = Inr resp
          \<and> (status_code resp < 400 \<or> 600 \<le> status_code resp)
          \<and> json resp = Inr data
          \<and> (\<not> truthy data
              \<or> (\<exists>d. data = PDict d
                   \<and> (map_of d ''results'' = None
                       \<or> (\<exists>rs. map_of d ''results'' = Some rs \<and> py_len rs = Inr 0)))) \<longrightarrow>
        fetch_ipni_id w n t = (Inr None, t @ [Get (ipni_request n)]))
   \<and> (\<forall>xs t'. fetch_synonyms_from_powo w u t = (Inr (Some xs), t') \<longleftrightarrow>
         (\<exists>resp doc sec lst.
            requests_get w t (powo_request u) = Inr resp
            \<and> (status_code resp < 400 \<or> 600 \<le> status_code resp)
            \<and> html resp = Inr doc
            \<and> find_tag doc ''section'' [(''id'', ''synonyms'')] = Some sec
            \<and> find_tag sec ''ul'' [(''class'', ''c-synonym-list'')] = Some lst
            \<and> xs = map (\<lambda>li. strip (get_text li)) (find_all lst ''li'')
            \<and> t' = t @ [Get (powo_request u)]))
   \<and> ((\<exists>r. fetch_synonyms_from_powo w u t = (Inr r, t @ [Get (powo_request u)]))
      \<or> (\<exists>e. can_print w (ErrorFetchingSynonyms u e) \<and> fetch_synonyms_from_powo w u t =
             (Inr None, t @ [Get (powo_request u), Print (ErrorFetchingSynonyms u e)]))
      \<or> (\<exists>e. \<not> can_print w (ErrorFetchingSynonyms u e) \<and> fetch_synonyms_from_powo w u t =
             (Inl UnicodeEncodeError, t @ [Get (powo_request u)])))
   \<and> (\<forall>e. (requests_get w t (powo_request u) = Inl e
           \<or> (\<exists>resp. requests_get w t (powo_request u) = Inr resp
                \<and> ((400 \<le> status_code resp \<and> status_code resp < 600
                      \<and> e = HTTPError (status_code resp))
                   \<or> ((status_code resp < 400 \<or> 600 \<le> status_code resp)
                        \<and> html resp = Inl e))))
          \<and> can_print w (ErrorFetchingSynonyms u e) \<longrightarrow>
        fetch_synonyms_from_powo w u t =
          (Inr None, t @ [Get (powo_request u), Print (ErrorFetchingSynonyms u e)]))
   \<and> (\<forall>resp doc. requests_get w t (powo_request u) = Inr resp
          \<and> (status_code resp < 400 \<or> 600 \<le> status_code resp)
          \<and> html resp = Inr doc
          \<and> ((\<forall>x\<in>set (descendants doc). \<not> matches_tag ''section'' [(''id'', ''synonyms'')] x)
              \<or> (\<exists>sec. find_tag doc ''section'' [(''id'', ''synonyms'')] = Some sec
                   \<and> (\<forall>x\<in>set (descendants sec).
                         \<not> matches_tag ''ul'' [(''class'', ''c-synonym-list'')] x))) \<longrightarrow>
        fetch_synonyms_from_powo w u t = (Inr None, t @ [Get (powo_request u)]))"
proof (intro conjI allI impI)
  fix i t'
  show "fetch_ipni_id w n t = (Inr (Some i), t') \<longleftrightarrow>
         (\<exists>resp d item others ident.
            requests_get w t (ipni_request n) = Inr resp
            \<and> (status_code resp < 400 \<or> 600 \<le> status_code resp)
            \<and> json resp = Inr (PDict d)
            \<and> map_of d ''results'' = Some (PList (PDict item # others))
            \<and> map_of item ''id'' = Some (PStr ident)
            \<and> i = last (split_char CHR '':'' ident)
            \<and> t' = t @ [Get (ipni_request n)])"
    by (rule fetch_ipni_id_some)
next
  show "((\<exists>r. fetch_ipni_id w n t = (Inr r, t @ [Get (ipni_request n)]))
      \<or> (\<exists>e. can_print w (ErrorRetrievingIpniId n e) \<and> fetch_ipni_id w n t =
             (Inr None, t @ [Get (ipni_request n), Print (ErrorRetrievingIpniId n e)]))
      \<or> (\<exists>e. \<not> can_print w (ErrorRetrievingIpniId n e) \<and> fetch_ipni_id w n t =
             (Inl UnicodeEncodeError, t @ [Get (ipni_request n)])))"
    by (rule fetch_ipni_id_shape)
next
  fix e
  assume a: "(requests_get w t (ipni_request n) = Inl e
           \<or> (\<exists>resp. requests_get w t (ipni_request n) = Inr resp
                \<and> ((400 \<le> status_code resp \<and> status_code resp < 600
                      \<and> e = HTTPError (status_code resp))
                   \<or> ((status_code resp < 400 \<or> 600 \<le> status_code resp)
                        \<and> (json resp = Inl e
                            \<or> (\<exists>data. json resp = Inr data \<and> ipni_id_of_data data = Inl e))))))
          \<and> can_print w (ErrorRetrievingIpniId n e)"
  then show "fetch_ipni_id w n t =
          (Inr None, t @ [Get (ipni_request n), Print (ErrorRetrievingIpniId n e)])"
    using fetch_ipni_id_raised [of w t n e] by presburger
next
  fix resp data
  assume a: "requests_get w t (ipni_request n) = Inr resp
          \<and> (status_code resp < 400 \<or> 600 \<le> status_code resp)
          \<and> json resp = Inr data
          \<and> (\<not> truthy data
              \<or> (\<exists>d. data = PDict d
                   \<and> (map_of d ''results'' = None
                       \<or> (\<exists>rs. map_of d ''results'' = Some rs \<and> py_len rs = Inr 0))))"
  then have "ipni_id_of_data data = Inr None"
    using ipni_id_of_data_falsy ipni_id_of_data_missing ipni_id_of_data_empty by blast
  with a show "fetch_ipni_id w n t = (Inr None, t @ [Get (ipni_request n)])"
    using fetch_ipni_id_returns [of w t n resp data None] by blast
next
  fix xs t'
  show "fetch_synonyms_from_powo w u t = (Inr (Some xs), t') \<longleftrightarrow>
         (\<exists>resp doc sec lst.
            requests_get w t (powo_request u) = Inr resp
            \<and> (status_code resp < 400 \<or> 600 \<le> status_code resp)
            \<and> html resp = Inr doc
            \<and> find_tag doc ''section'' [(''id'', ''synonyms'')] = Some sec
            \<and> find_tag sec ''ul'' [(''class'', ''c-synonym-list'')] = Some lst
            \<and> xs = map (\<lambda>li. strip (get_text li)) (find_all lst ''li'')
            \<and> t' = t @ [Get (powo_request u)])"
    by (rule fetch_synonyms_some)
next
  show "((\<exists>r. fetch_synonyms_from_powo w u t = (Inr r, t @ [Get (powo_request u)]))
      \<or> (\<exists>e. can_print w (ErrorFetchingSynonyms u e) \<and> fetch_synonyms_from_powo w u t =
             (Inr None, t @ [Get (powo_request u), Print (ErrorFetchingSynonyms u e)]))
      \<or> (\<exists>e. \<not> can_print w (ErrorFetchingSynonyms u e) \<and> fetch_synonyms_from_powo w u t =
             (Inl UnicodeEncodeError, t @ [Get (powo_request u)])))"
    by (rule fetch_synonyms_shape)
next
  fix e
  assume a: "(requests_get w t (powo_request u) = Inl e
           \<or> (\<exists>resp. requests_get w t (powo_request u) = Inr resp
                \<and> ((400 \<le> status_code resp \<and> status_code resp < 600
                      \<and> e = HTTPError (status_code resp))
                   \<or> ((status_code resp < 400 \<or> 600 \<le> status_code resp)
                        \<and> html resp = Inl e))))
          \<and> can_print w (ErrorFetchingSynonyms u e)"
  then show "fetch_synonyms_from_powo w u t =
          (Inr None, t @ [Get (powo_request u), Print (ErrorFetchingSynonyms u e)])"
    using fetch_synonyms_raised [of w t u e] by presburger
next
  fix resp doc
  assume a: "requests_get w t (powo_request u) = Inr resp
          \<and> (status_code resp < 400 \<or> 600 \<le> status_code resp)
          \<and> html resp = Inr doc
          \<and> ((\<forall>x\<in>set (descendants doc). \<not> matches_tag ''section'' [(''id'', ''synonyms'')] x)
              \<or> (\<exists>sec. find_tag doc ''section'' [(''id'', ''synonyms'')] = Some sec
                   \<and> (\<forall>x\<in>set (descendants sec).
                         \<not> matches_tag ''ul'' [(''class'', ''c-synonym-list'')] x)))"
  then have "synonyms_of_soup doc = None"
    using synonyms_of_soup_no_section synonyms_of_soup_no_list by blast
  with a show "fetch_synonyms_from_powo w u t = (Inr None, t @ [Get (powo_request u)])"
    using fetch_synonyms_returns [of w t u resp doc] by simp
qed


lemma ipni_id_of_number: "ipni_id_of_data (PInt 5) = Inl TypeError"
  by (simp add: ipni_id_of_data_def has_results_def)

lemma ipni_id_of_result_without_id:
  "ipni_id_of_data (PDict [(''results'', PList [PDict []])]) = Inl (KeyError ''id'')"
  by (simp add: ipni_id_of_data_def has_results_def first_result_id_def seq_index_def)

theorem fetch_failures_yield_none_witness:
  "fetch_ipni_id (mock_world names_frame offline offline) ''Quercus robur'' [] =
     (Inr None, [Get (ipni_request ''Quercus robur''),
             Print (ErrorRetrievingIpniId ''Quercus robur'' (RequestException ''offline''))])
   \<and> fetch_ipni_id (mock_world names_frame (Inr (status_response 404)) offline)
       ''Quercus robur'' [] =
     (Inr None, [Get (ipni_request ''Quercus robur''),
             Print (ErrorRetrievingIpniId ''Quercus robur'' (HTTPError 404))])
   \<and> fetch_ipni_id (mock_world names_frame (Inr unparsed_response) offline)
       ''Quercus robur'' [] =
     (Inr None, [Get (ipni_request ''Quercus robur''),
             Print (ErrorRetrievingIpniId ''Quercus robur'' JSONDecodeError)])
   \<and> fetch_ipni_id (mock_world names_frame (Inr (json_response (PInt 5))) offline)
       ''Quercus robur'' [] =
     (Inr None, [Get (ipni_request ''Quercus robur''),
             Print (ErrorRetrievingIpniId ''Quercus robur'' TypeError)])
   \<and> fetch_ipni_id
       (mock_world names_frame (Inr (json_response (PDict [(''results'', PList [PDict []])]))) offline)
       ''Quercus robur'' [] =
     (Inr None, [Get (ipni_request ''Quercus robur''),
             Print (ErrorRetrievingIpniId ''Quercus robur'' (KeyError ''id''))])
   \<and> fetch_ipni_id
       (mock_world names_frame (Inr (json_response (PDict [(''total'', PInt 0)]))) offline)
       ''Quercus robur'' [] =
     (Inr None, [Get (ipni_request ''Quercus robur'')])
   \<and> fetch_ipni_id
       (mock_world names_frame (Inr (json_response (PDict [(''results'', PList [])]))) offline)
       ''Quercus robur'' [] =
     (Inr None, [Get (ipni_request ''Quercus robur'')])
   \<and> fetch_synonyms_from_powo (mock_world names_frame offline offline) (powo_url_of ''12345'') [] =
     (Inr None, [Get (powo_request (powo_url_of ''12345'')),
             Print (ErrorFetchingSynonyms (powo_url_of ''12345'') (RequestException ''offline''))])
   \<and> fetch_synonyms_from_powo (mock_world names_frame offline (Inr (status_response 503)))
       (powo_url_of ''12345'') [] =
     (Inr None, [Get (powo_request (powo_url_of ''12345'')),
             Print (ErrorFetchingSynonyms (powo_url_of ''12345'') (HTTPError 503))])
   \<and> fetch_synonyms_from_powo (mock_world names_frame offline (Inr unparsed_response))
       (powo_url_of ''12345'') [] =
     (Inr None, [Get (powo_request (powo_url_of ''12345'')),
             Print (ErrorFetchingSynonyms (powo_url_of ''12345'') ParserError)])
   \<and> fetch_synonyms_from_powo (mock_world names_frame offline (Inr (html_response page_no_section)))
       (powo_url_of ''12345'') [] =
     (Inr None, [Get (powo_request (powo_url_of ''12345''))])
   \<and> fetch_synonyms_from_powo (mock_world names_frame offline (Inr (html_response page_no_list)))
       (powo_url_of ''12345'') [] =
     (Inr None, [Get (powo_request (powo_url_of ''12345''))])"
proof -
  let ?n = "''Quercus robur''"
  let ?u = "powo_url_of ''12345''"
  note raised_r = fetch_failures_yield_none [THEN conjunct2, THEN conjunct2, THEN conjunct1, rule_format]
  note quiet_r = fetch_failures_yield_none
    [THEN conjunct2, THEN conjunct2, THEN conjunct2, THEN conjunct1, rule_format]
  note raised_e = fetch_failures_yield_none
    [THEN conjunct2, THEN conjunct2, THEN conjunct2, THEN conjunct2, THEN conjunct2,
     THEN conjunct2, THEN conjunct1, rule_format]
  note quiet_e = fetch_failures_yield_none
    [THEN conjunct2, THEN conjunct2, THEN conjunct2, THEN conjunct2, THEN conjunct2,
     THEN conjunct2, THEN conjunct2, rule_format]
  have 1: "fetch_ipni_id (mock_world names_frame offline offline) ?n [] =
     (Inr None, [] @ [Get (ipni_request ?n), Print (ErrorRetrievingIpniId ?n (RequestException ''offline''))])"
    by (rule raised_r) (simp add: offline_def)
  have 2: "fetch_ipni_id (mock_world names_frame (Inr (status_response 404)) offline) ?n [] =
     (Inr None, [] @ [Get (ipni_request ?n), Print (ErrorRetrievingIpniId ?n (HTTPError 404))])"
    by (rule raised_r) (simp add: status_response_def)
  have 3: "fetch_ipni_id (mock_world names_frame (Inr unparsed_response) offline) ?n [] =
     (Inr None, [] @ [Get (ipni_request ?n), Print (ErrorRetrievingIpniId ?n JSONDecodeError)])"
    by (rule raised_r) (simp add: unparsed_response_def)
  have 4: "fetch_ipni_id (mock_world names_frame (Inr (json_response (PInt 5))) offline) ?n [] =
     (Inr None, [] @ [Get (ipni_request ?n), Print (ErrorRetrievingIpniId ?n TypeError)])"
    by (rule raised_r) (simp add: json_response_def ipni_id_of_number)
  have 5: "fetch_ipni_id
       (mock_world names_frame (Inr (json_response (PDict [(''results'', PList [PDict []])]))) offline)
       ?n [] =
     (Inr None, [] @ [Get (ipni_request ?n), Print (ErrorRetrievingIpniId ?n (KeyError ''id''))])"
    by (rule raised_r) (simp add: json_response_def ipni_id_of_result_without_id)
  have 6: "fetch_ipni_id
       (mock_world names_frame (Inr (json_response (PDict [(''total'', PInt 0)]))) offline) ?n [] =
     (Inr None, [] @ [Get (ipni_request ?n)])"
    by (rule quiet_r [of _ _ _ "json_response (PDict [(''total'', PInt 0)])" "PDict [(''total'', PInt 0)]"])
       (simp add: json_response_def)
  have 7: "fetch_ipni_id
       (mock_world names_frame (Inr (json_response (PDict [(''results'', PList [])]))) offline) ?n [] =
     (Inr None, [] @ [Get (ipni_request ?n)])"
    by (rule quiet_r [of _ _ _ "json_response (PDict [(''results'', PList [])])"
                       "PDict [(''results'', PList [])]"])
       (simp add: json_response_def)
  have 8: "fetch_synonyms_from_powo (mock_world names_frame offline offline) ?u [] =
     (Inr None, [] @ [Get (powo_request ?u), Print (ErrorFetchingSynonyms ?u (RequestException ''offline''))])"
    by (rule raised_e) (simp add: offline_def)
  have 9: "fetch_synonyms_from_powo (mock_world names_frame offline (Inr (status_response 503))) ?u [] =
     (Inr None, [] @ [Get (powo_request ?u), Print (ErrorFetchingSynonyms ?u (HTTPError 503))])"
    by (rule raised_e) (simp add: status_response_def)
  have 10: "fetch_synonyms_from_powo (mock_world names_frame offline (Inr unparsed_response)) ?u [] =
     (Inr None, [] @ [Get (powo_request ?u), Print (ErrorFetchingSynonyms ?u ParserError)])"
    by (rule raised_e) (simp add: unparsed_response_def)
  have 11: "fetch_synonyms_from_powo
       (mock_world names_frame offline (Inr (html_response page_no_section))) ?u [] =
     (Inr None, [] @ [Get (powo_request ?u)])"
    by (rule quiet_e [of _ _ _ "html_response page_no_section" page_no_section])
       (simp add: html_response_def page_no_section_has_none)
  have 12: "fetch_synonyms_from_powo
       (mock_world names_frame offline (Inr (html_response page_no_list))) ?u [] =
     (Inr None, [] @ [Get (powo_request ?u)])"
    by (rule quiet_e [of _ _ _ "html_response page_no_list" page_no_list])
       (use page_no_list_has_section page_no_list_has_none in \<open>simp add: html_response_def\<close>)
  from 1 2 3 4 5 6 7 8 9 10 11 12 show ?thesis by simp
qed

theorem fetch_propagates_counterexample:
  "fetch_ipni_id (ascii_console (mock_world names_frame offline offline)) mint_name [] =
     (Inl UnicodeEncodeError, [Get (ipni_request mint_name)])
   \<and> fetch_synonyms_from_powo (ascii_console (mock_world names_frame offline offline))
       (powo_url_of mint_name) [] =
     (Inl UnicodeEncodeError, [Get (powo_request (powo_url_of mint_name))])
   \<and> fetch_ipni_id
       (mock_world names_frame (Inr (not_modified_response registry_12345)) offline)
       ''Quercus robur'' [] =
     (Inr (Some ''12345''), [Get (ipni_request ''Quercus robur'')])"
proof -
  have u: "\<not> can_print (ascii_console (mock_world names_frame offline offline))
             (ErrorFetchingSynonyms (powo_url_of mint_name) (RequestException ''offline''))"
    by (simp add: can_print_def mint_name_def powo_url_of_def)
  have 1: "fetch_ipni_id (ascii_console (mock_world names_frame offline offline)) mint_name [] =
     (Inl UnicodeEncodeError, [Get (ipni_request mint_name)])"
    using mint_unprintable(2) by (simp add: fetch_ipni_id_def offline_def)
  have 2: "fetch_synonyms_from_powo (ascii_console (mock_world names_frame offline offline))
       (powo_url_of mint_name) [] =
     (Inl UnicodeEncodeError, [Get (powo_request (powo_url_of mint_name))])"
    using u by (simp add: fetch_synonyms_from_powo_def offline_def)
  have 3: "fetch_ipni_id
       (mock_world names_frame (Inr (not_modified_response registry_12345)) offline)
       ''Quercus robur'' [] =
     (Inr (Some ''12345''), [Get (ipni_request ''Quercus robur'')])"
    by (simp add: fetch_ipni_id_def not_modified_response_def raise_for_status_def
        ipni_id_of_registry_12345)
  from 1 2 3 show ?thesis by simp
qed


section \<open>Pages without the synonym list\<close>

text \<open>
  C7. When a response came back and its body parses to a document that has no
  element matching \<open>section\<close> with id \<open>synonyms\<close>, or whose section found has below it
  no element matching \<open>ul\<close> with class \<open>c-synonym-list\<close>, the Extractor never returns a
  list, so not the empty list either, and it returns \<^verbatim>\<open>None\<close>. This holds for every
  status code; for a status from 400 to 599 the document is not even looked at and
  \<^verbatim>\<open>None\<close> comes from the \<^verbatim>\<open>except\<close> clause, after its diagnostic line, so there
  that line must be printable.
\<close>

theorem extractor_absent_without_section:
  assumes "requests_get w t (powo_request u) = Inr resp"
    and "html resp = Inr doc"
    and "(\<forall>x\<in>set (descendants doc). \<not> matches_tag ''section'' [(''id'', ''synonyms'')] x)
         \<or> (\<exists>sec. find_tag doc ''section'' [(''id'', ''synonyms'')] = Some sec
              \<and> (\<forall>x\<in>set (descendants sec).
                    \<not> matches_tag ''ul'' [(''class'', ''c-synonym-list'')] x))"
  shows "(\<forall>xs. fst (fetch_synonyms_from_powo w u t) \<noteq> Inr (Some xs))
         \<and> fst (fetch_synonyms_from_powo w u t) \<noteq> Inr (Some [])
         \<and> (status_code resp < 400 \<or> 600 \<le> status_code resp
              \<or> can_print w (ErrorFetchingSynonyms u (HTTPError (status_code resp)))
            \<longrightarrow> fst (fetch_synonyms_from_powo w u t) = Inr None)"
proof -
  have n: "synonyms_of_soup doc = None"
    using assms(3) synonyms_of_soup_no_section synonyms_of_soup_no_list by blast
  have a: "\<forall>xs. fst (fetch_synonyms_from_powo w u t) \<noteq> Inr (Some xs)"
  proof (intro allI notI)
    fix xs assume "fst (fetch_synonyms_from_powo w u t) = Inr (Some xs)"
    then obtain t' where "fetch_synonyms_from_powo w u t = (Inr (Some xs), t')"
      by (cases "fetch_synonyms_from_powo w u t") simp
    then have "synonyms_of_soup doc = Some xs"
      using fetch_synonyms_some [of w u t xs t'] synonyms_of_soup_some [of doc xs] assms(1,2)
      by auto
    with n show False by simp
  qed
  have b: "status_code resp < 400 \<or> 600 \<le> status_code resp
              \<or> can_print w (ErrorFetchingSynonyms u (HTTPError (status_code resp)))
            \<longrightarrow> fst (fetch_synonyms_from_powo w u t) = Inr None"
  proof (cases "400 \<le> status_code resp \<and> status_code resp < 600")
    case True
    then show ?thesis
      using fetch_synonyms_raised [of w t u "HTTPError (status_code resp)"] assms(1) by auto
  next
    case False
    then have "status_code resp < 400 \<or> 600 \<le> status_code resp" by linarith
    then show ?thesis
      using fetch_synonyms_returns [OF assms(1) _ assms(2)] n by simp
  qed
  from a b show ?thesis by blast
qed

theorem extractor_absent_without_section_witness:
  "fst (fetch_synonyms_from_powo
          (mock_world names_frame offline (Inr (html_response page_no_section)))
          (powo_url_of ''12345'') []) = Inr None
   \<and> fst (fetch_synonyms_from_powo
          (mock_world names_frame offline (Inr (html_response page_no_list)))
          (powo_url_of ''12345'') []) = Inr None"
proof -
  let ?u = "powo_url_of ''12345''"
  have 1: "requests_get (mock_world names_frame offline (Inr (html_response page_no_section))) []
             (powo_request ?u) = Inr (html_response page_no_section)"
    by simp
  have 2: "html (html_response page_no_section) = Inr page_no_section"
    by (simp add: html_response_def)
  have 3: "requests_get (mock_world names_frame offline (Inr (html_response page_no_list))) []
             (powo_request ?u) = Inr (html_response page_no_list)"
    by simp
  have 4: "html (html_response page_no_list) = Inr page_no_list"
    by (simp add: html_response_def)
  have 5: "(\<forall>x\<in>set (descendants page_no_section). \<not> matches_tag ''section'' [(''id'', ''synonyms'')] x)
         \<or> (\<exists>sec. find_tag page_no_section ''section'' [(''id'', ''synonyms'')] = Some sec
              \<and> (\<forall>x\<in>set (descendants sec).
                    \<not> matches_tag ''ul'' [(''class'', ''c-synonym-list'')] x))"
    using page_no_section_has_none by blast
  have 6: "(\<forall>x\<in>set (descendants page_no_list). \<not> matches_tag ''section'' [(''id'', ''synonyms'')] x)
         \<or> (\<exists>sec. find_tag page_no_list ''section'' [(''id'', ''synonyms'')] = Some sec
              \<and> (\<forall>x\<in>set (descendants sec).
                    \<not> matches_tag ''ul'' [(''class'', ''c-synonym-list'')] x))"
    using page_no_list_has_section page_no_list_has_none by blast
  have 7: "status_code (html_response page_no_section) < 400"
    "status_code (html_response page_no_list) < 400"
    by (simp_all add: html_response_def)
  from extractor_absent_without_section [OF 1 2 5] extractor_absent_without_section [OF 3 4 6] 7
  show ?thesis by blast
qed


section \<open>The identifier and the taxon URL\<close>

lemma url_12345: "powo_url_of ''12345'' = ''https://powo.science.kew.org/taxon/urn:lsid:ipni.org:names:12345''"
  by (simp add: powo_url_of_def)

lemma url_12345_printable: "can_print w (ConstructedPowoUrl (powo_url_of ''12345''))"
  by (simp add: can_print_one_string powo_url_of_def encodable_def)

text \<open>
  C6. When the search response is not an error status and its body decodes to
  \<open>{"results": [{"id": "urn:lsid:ipni.org:names:12345"}]}\<close>, the Resolver returns
  \<open>"12345"\<close>, the last piece of the id split at the colons (in general, see
  \<open>ipni_id_of_data_first\<close>), and the loop body, for a row that got as far as the
  Resolver (the line of line 79 was printed), constructs the URL
  \<open>"https://powo.science.kew.org/taxon/urn:lsid:ipni.org:names:12345"\<close>: it is the URL
  printed, the URL requested, and the \<open>POWO_URL\<close> of the record the row appends. The
  row appends a record whenever the Extractor returns, which it does whenever its
  diagnostic line, if it comes to that, can be printed.
\<close>

theorem registry_12345_resolves:
  assumes "map_of row ''Species'' = Some (PStr s)"
    and "can_print w (ProcessingSpecies (strip s))"
    and "requests_get w (t @ [Print (ProcessingSpecies (strip s))]) (ipni_request (strip s)) = Inr resp"
    and "status_code resp < 400 \<or> 600 \<le> status_code resp"
    and "json resp =
           Inr (PDict [(''results'', PList [PDict [(''id'', PStr ''urn:lsid:ipni.org:names:12345'')]])])"
  shows "fetch_ipni_id w (strip s) (t @ [Print (ProcessingSpecies (strip s))]) =
           (Inr (Some ''12345''),
            t @ [Print (ProcessingSpecies (strip s)), Get (ipni_request (strip s))])
         \<and> constructed (snd (main_body w row t)) = constructed t @ [''https://powo.science.kew.org/taxon/urn:lsid:ipni.org:names:12345'']
         \<and> gets (snd (main_body w row t)) =
             gets t @ [ipni_request (strip s), powo_request ''https://powo.science.kew.org/taxon/urn:lsid:ipni.org:names:12345'']
         \<and> (\<forall>r. fst (main_body w row t) = Inr r \<longrightarrow>
               Species r = strip s \<and> POWO_URL r = ''https://powo.science.kew.org/taxon/urn:lsid:ipni.org:names:12345'')
         \<and> ((\<forall>e. can_print w (ErrorFetchingSynonyms ''https://powo.science.kew.org/taxon/urn:lsid:ipni.org:names:12345'' e)) \<longrightarrow>
               (\<exists>synonyms t'. main_body w row t =
                  (Inr \<lparr>Species = strip s, POWO_URL = ''https://powo.science.kew.org/taxon/urn:lsid:ipni.org:names:12345'',
                        Synonyms = synonyms\<rparr>, t')))"
proof -
  have d: "ipni_id_of_data
             (PDict [(''results'', PList [PDict [(''id'', PStr ''urn:lsid:ipni.org:names:12345'')]])])
           = Inr (Some ''12345'')"
    using ipni_id_of_registry_12345 by (simp add: registry_12345_def)
  have f: "fetch_ipni_id w (strip s) (t @ [Print (ProcessingSpecies (strip s))]) =
           (Inr (Some ''12345''),
            (t @ [Print (ProcessingSpecies (strip s))]) @ [Get (ipni_request (strip s))])"
    by (rule fetch_ipni_id_returns [OF assms(3,4,5) d])
  have n: "''12345'' \<noteq> []" by simp
  note q = main_body_quiet_found [OF assms(1,2) f n url_12345_printable]
  have last: "(\<forall>e. can_print w (ErrorFetchingSynonyms (powo_url_of ''12345'') e)) \<longrightarrow>
               (\<exists>synonyms t'. main_body w row t =
                  (Inr \<lparr>Species = strip s, POWO_URL = powo_url_of ''12345'',
                        Synonyms = synonyms\<rparr>, t'))"
  proof
    assume p: "\<forall>e. can_print w (ErrorFetchingSynonyms (powo_url_of ''12345'') e)"
    let ?t3 = "((t @ [Print (ProcessingSpecies (strip s))]) @ [Get (ipni_request (strip s))]) @
        [Print (ConstructedPowoUrl (powo_url_of ''12345''))]"
    obtain synonyms t4 where
      g: "fetch_synonyms_from_powo w (powo_url_of ''12345'') ?t3 = (Inr synonyms, t4)"
      using fetch_synonyms_shape [of w "powo_url_of ''12345''" ?t3] p by blast
    show "\<exists>synonyms t'. main_body w row t =
                  (Inr \<lparr>Species = strip s, POWO_URL = powo_url_of ''12345'',
                        Synonyms = synonyms\<rparr>, t')"
      using main_body_found [OF assms(1,2) f n url_12345_printable g] by blast
  qed
  from f q last show ?thesis
    unfolding url_12345 by simp
qed

theorem registry_12345_resolves_witness:
  "fetch_ipni_id (mock_world names_frame (Inr (json_response registry_12345)) offline)
     ''Quercus robur'' [Print (ProcessingSpecies ''Quercus robur'')] =
     (Inr (Some ''12345''),
      [Print (ProcessingSpecies ''Quercus robur''), Get (ipni_request ''Quercus robur'')])
   \<and> constructed (snd (main_body
        (mock_world names_frame (Inr (json_response registry_12345)) offline) oak_row [])) =
       [''https://powo.science.kew.org/taxon/urn:lsid:ipni.org:names:12345'']
   \<and> gets (snd (main_body
        (mock_world names_frame (Inr (json_response registry_12345)) offline) oak_row [])) =
       [ipni_request ''Quercus robur'', powo_request ''https://powo.science.kew.org/taxon/urn:lsid:ipni.org:names:12345'']
   \<and> (\<exists>synonyms t'.
        main_body (mock_world names_frame (Inr (json_response registry_12345)) offline) oak_row [] =
          (Inr \<lparr>Species = ''Quercus robur'', POWO_URL = ''https://powo.science.kew.org/taxon/urn:lsid:ipni.org:names:12345'',
                Synonyms = synonyms\<rparr>, t'))"
proof -
  let ?w = "mock_world names_frame (Inr (json_response registry_12345)) offline"
  have p: "can_print ?w (ProcessingSpecies (strip '' Quercus robur ''))" by simp
  have 1: "requests_get ?w ([] @ [Print (ProcessingSpecies (strip '' Quercus robur ''))])
             (ipni_request (strip '' Quercus robur '')) = Inr (json_response registry_12345)"
    by simp
  have 2: "status_code (json_response registry_12345) < 400
           \<or> 600 \<le> status_code (json_response registry_12345)"
    by (simp add: json_response_def)
  have 3: "json (json_response registry_12345) =
           Inr (PDict [(''results'', PList [PDict [(''id'', PStr ''urn:lsid:ipni.org:names:12345'')]])])"
    by (simp add: json_response_def registry_12345_def)
  have 4: "\<forall>e. can_print ?w (ErrorFetchingSynonyms ''https://powo.science.kew.org/taxon/urn:lsid:ipni.org:names:12345'' e)"
    by simp
  from registry_12345_resolves [OF oak_cell p 1 2 3] 4 show ?thesis
    by (simp add: strip_oak)
qed

text \<open>
  C10. When the id of the first search result ends with a colon, the Resolver returns
  the empty string, not \<^verbatim>\<open>None\<close>, and the loop body, for a row that got as far as the
  Resolver, still takes the row for not found: it appends the record with
  \<open>"Not Found"\<close> and \<open>"None"\<close>, constructs no URL and issues no request besides the
  Resolver's, because line 83 tests the truth value of the identifier.
\<close>

theorem empty_identifier_is_not_found:
  assumes "map_of row ''Species'' = Some (PStr s)"
    and "can_print w (ProcessingSpecies (strip s))"
    and "requests_get w (t @ [Print (ProcessingSpecies (strip s))]) (ipni_request (strip s)) = Inr resp"
    and "status_code resp < 400 \<or> 600 \<le> status_code resp"
    and "json resp = Inr (PDict d)"
    and "map_of d ''results'' = Some (PList (PDict item # others))"
    and "map_of item ''id'' = Some (PStr (front @ '':''))"
  shows "fetch_ipni_id w (strip s) (t @ [Print (ProcessingSpecies (strip s))]) =
           (Inr (Some []), t @ [Print (ProcessingSpecies (strip s)), Get (ipni_request (strip s))])
         \<and> main_body w row t =
           (Inr \<lparr>Species = strip s, POWO_URL = ''Not Found'', Synonyms = ''None''\<rparr>,
            t @ [Print (ProcessingSpecies (strip s)), Get (ipni_request (strip s)),
                 Print (NoIpniIdFound (strip s))])
         \<and> constructed (snd (main_body w row t)) = constructed t
         \<and> gets (snd (main_body w row t)) = gets t @ [ipni_request (strip s)]"
proof -
  have "last (split_char CHR '':'' (front @ '':'')) = []"
    using split_acc_snoc [of "CHR '':''" "[]" front] by (simp add: split_char_def)
  then have d: "ipni_id_of_data (PDict d) = Inr (Some [])"
    using ipni_id_of_data_first [OF assms(6,7)] by simp
  have f: "fetch_ipni_id w (strip s) (t @ [Print (ProcessingSpecies (strip s))]) =
           (Inr (Some []), (t @ [Print (ProcessingSpecies (strip s))]) @ [Get (ipni_request (strip s))])"
    by (rule fetch_ipni_id_returns [OF assms(3,4,5) d])
  have e: "Some [] = None \<or> Some ([] :: string) = Some []" by simp
  have b: "main_body w row t =
           (Inr \<lparr>Species = strip s, POWO_URL = ''Not Found'', Synonyms = ''None''\<rparr>,
            ((t @ [Print (ProcessingSpecies (strip s))]) @ [Get (ipni_request (strip s))]) @
              [Print (NoIpniIdFound (strip s))])"
    by (rule main_body_not_found [OF assms(1,2) f e])
  from f b show ?thesis by simp
qed

theorem empty_identifier_is_not_found_witness:
  "fetch_ipni_id (mock_world names_frame (Inr (json_response registry_colon)) offline)
     ''Quercus robur'' [Print (ProcessingSpecies ''Quercus robur'')] =
     (Inr (Some []), [Print (ProcessingSpecies ''Quercus robur''), Get (ipni_request ''Quercus robur'')])
   \<and> main_body (mock_world names_frame (Inr (json_response registry_colon)) offline) oak_row [] =
     (Inr \<lparr>Species = ''Quercus robur'', POWO_URL = ''Not Found'', Synonyms = ''None''\<rparr>,
      [Print (ProcessingSpecies ''Quercus robur''), Get (ipni_request ''Quercus robur''),
       Print (NoIpniIdFound ''Quercus robur'')])"
proof -
  let ?w = "mock_world names_frame (Inr (json_response registry_colon)) offline"
  have p: "can_print ?w (ProcessingSpecies (strip '' Quercus robur ''))" by simp
  have 1: "requests_get ?w ([] @ [Print (ProcessingSpecies (strip '' Quercus robur ''))])
             (ipni_request (strip '' Quercus robur '')) = Inr (json_response registry_colon)"
    by simp
  have 2: "status_code (json_response registry_colon) < 400
           \<or> 600 \<le> status_code (json_response registry_colon)"
    by (simp add: json_response_def)
  have 3: "json (json_response registry_colon) =
           Inr (PDict [(''results'', PList [PDict [(''id'', PStr ''urn:lsid:ipni.org:names:'')]])])"
    by (simp add: json_response_def registry_colon_def)
  have 4: "map_of [(''results'', PList [PDict [(''id'', PStr ''urn:lsid:ipni.org:names:'')]])] ''results''
           = Some (PList (PDict [(''id'', PStr ''urn:lsid:ipni.org:names:'')] # []))"
    by simp
  have 5: "map_of [(''id'', PStr ''urn:lsid:ipni.org:names:'')] ''id'' =
           Some (PStr (''urn:lsid:ipni.org:names'' @ '':''))"
    by simp
  from empty_identifier_is_not_found [OF oak_cell p 1 2 3 4 5] show ?thesis
    by (simp add: strip_oak)
qed


section \<open>The whole run\<close>

lemma main_body_written: "written (snd (main_body w row t)) = written t"
  using main_body_outcomes [of w row t] by auto

lemma fetch_ipni_id_returns_if_printable:
  assumes "\<forall>l. can_print w l"
  shows "\<exists>r t'. fetch_ipni_id w n t = (Inr r, t')"
  using fetch_ipni_id_shape [of w n t] assms by blast

lemma fetch_synonyms_returns_if_printable:
  assumes "\<forall>l. can_print w l"
  shows "\<exists>r t'. fetch_synonyms_from_powo w u t = (Inr r, t')"
  using fetch_synonyms_shape [of w u t] assms by blast

lemma main_body_string_returns:
  assumes "map_of row ''Species'' = Some (PStr s)" and "\<forall>l. can_print w l"
  shows "\<exists>r t'. main_body w row t = (Inr r, t') \<and> Species r = strip s"
proof -
  have p: "can_print w (ProcessingSpecies (strip s))" using assms(2) by simp
  obtain ipni_id t2 where
    f: "fetch_ipni_id w (strip s) (t @ [Print (ProcessingSpecies (strip s))]) = (Inr ipni_id, t2)"
    using fetch_ipni_id_returns_if_printable [OF assms(2)] by blast
  show ?thesis
  proof (cases "ipni_id = None \<or> ipni_id = Some []")
    case True
    then show ?thesis using main_body_not_found [OF assms(1) p f] by simp
  next
    case False
    then obtain ident where i: "ipni_id = Some ident" "ident \<noteq> []" by (cases ipni_id) auto
    have u: "can_print w (ConstructedPowoUrl (powo_url_of ident))" using assms(2) by simp
    obtain synonyms t4 where g: "fetch_synonyms_from_powo w (powo_url_of ident)
           (t2 @ [Print (ConstructedPowoUrl (powo_url_of ident))]) = (Inr synonyms, t4)"
      using fetch_synonyms_returns_if_printable [OF assms(2)] by blast
    show ?thesis
      using main_body_found [OF assms(1) p f [unfolded i(1)] i(2) u g] by simp
  qed
qed

lemma main_loop_all_strings:
  assumes "\<forall>row\<in>set rs. \<exists>s. map_of row ''Species'' = Some (PStr s)" and "\<forall>l. can_print w l"
  shows "\<exists>new ts. main_loop w rs results t = (Inr (results @ new), last (t # ts))
           \<and> length new = length rs \<and> length ts = length rs
           \<and> written (last (t # ts)) = written t
           \<and> (\<forall>i<length rs. main_body w (rs ! i) ((t # ts) ! i) = (Inr (new ! i), ts ! i))"
  using assms(1)
proof (induction rs arbitrary: results t)
  case Nil
  then show ?case by simp
next
  case (Cons row rest)
  then obtain s where c: "map_of row ''Species'' = Some (PStr s)" by auto
  obtain r t1 where b: "main_body w row t = (Inr r, t1)"
    using main_body_string_returns [OF c assms(2), of t] by blast
  have w1: "written t1 = written t"
    using main_body_written [of w row t] b by simp
  from Cons.prems have "\<forall>row\<in>set rest. \<exists>s. map_of row ''Species'' = Some (PStr s)" by simp
  from Cons.IH [OF this, of "results @ [r]" t1]
  obtain new ts where
    l: "main_loop w rest (results @ [r]) t1 = (Inr ((results @ [r]) @ new), last (t1 # ts))"
    and n: "length new = length rest" "length ts = length rest"
    and wr: "written (last (t1 # ts)) = written t1"
    and each: "\<forall>i<length rest. main_body w (rest ! i) ((t1 # ts) ! i) = (Inr (new ! i), ts ! i)"
    by blast
  have step: "\<forall>i<length (row # rest).
      main_body w ((row # rest) ! i) ((t # t1 # ts) ! i) = (Inr ((r # new) ! i), (t1 # ts) ! i)"
  proof (intro allI impI)
    fix i assume "i < length (row # rest)"
    then show "main_body w ((row # rest) ! i) ((t # t1 # ts) ! i) = (Inr ((r # new) ! i), (t1 # ts) ! i)"
      using b each by (cases i) simp_all
  qed
  have "main_loop w (row # rest) results t = (Inr (results @ (r # new)), last (t # t1 # ts))"
    using b l by simp
  moreover have "length (r # new) = length (row # rest)" "length (t1 # ts) = length (row # rest)"
    using n by simp_all
  moreover have "written (last (t # t1 # ts)) = written t"
    using wr w1 by simp
  ultimately show ?case using step by blast
qed

text \<open>
  C1, as amended. When the data frame read has a \<open>Species\<close> column, every cell of that
  column is a string, standard output can print every line and the output path can
  be written, \<open>main\<close> returns normally whatever the network does: the loop body
  returns a record for each row in turn, each row starting from the trace the
  previous one left, the record at position \<open>i\<close> is the one the body returned for row
  \<open>i\<close> and carries the stripped name of that row, and the records are written once, at
  the end, to the output path, as many as there are rows and in their order.

  The three conditions are needed, because line 78 (\<^verbatim>\<open>row['Species'].strip()\<close>), the
  prints of lines 79, 84, 90 and 106 and \<^verbatim>\<open>to_csv\<close> of line 105 are outside every
  \<^verbatim>\<open>try\<close>, and a print inside an \<^verbatim>\<open>except\<close> clause is covered by none: a cell that is
  not a string (the \<^verbatim>\<open>NaN\<close> that \<^verbatim>\<open>pd.read_csv\<close> gives for an empty field, a number), a
  name that standard output cannot encode, or a path that cannot be written each
  make \<open>main\<close> raise with no file written, as the evaluation at the end of this
  section shows.
\<close>

theorem main_one_record_per_row:
  assumes "read_csv w input_csv = Inr df"
    and "''Species'' \<in> set (columns df)"
    and "\<forall>row\<in>set (rows df). \<exists>s. map_of row ''Species'' = Some (PStr s)"
    and "\<forall>l. can_print w l"
    and "\<forall>records. to_csv w output_csv records = None"
  shows "\<exists>results ts.
           main w input_csv output_csv t =
             (Inr (), last (t # ts) @ [ToCsv output_csv results, Print (ResultsSaved output_csv)])
         \<and> written (last (t # ts) @ [ToCsv output_csv results, Print (ResultsSaved output_csv)])
             = written t @ [(output_csv, results)]
         \<and> length results = length (rows df) \<and> length ts = length (rows df)
         \<and> (\<forall>i<length (rows df).
               main_body w (rows df ! i) ((t # ts) ! i) = (Inr (results ! i), ts ! i)
             \<and> (\<exists>s. map_of (rows df ! i) ''Species'' = Some (PStr s)
                    \<and> Species (results ! i) = strip s))"
proof -
  obtain new ts where
    l: "main_loop w (rows df) [] t = (Inr ([] @ new), last (t # ts))"
    and n: "length new = length (rows df)" "length ts = length (rows df)"
    and wr: "written (last (t # ts)) = written t"
    and each: "\<forall>i<length (rows df). main_body w (rows df ! i) ((t # ts) ! i) = (Inr (new ! i), ts ! i)"
    using main_loop_all_strings [OF assms(3,4), of "[]" t] by blast
  have "can_print w (ResultsSaved output_csv)" using assms(4) by simp
  then have m: "main w input_csv output_csv t =
             (Inr (), last (t # ts) @ [ToCsv output_csv new, Print (ResultsSaved output_csv)])"
    using assms(1,2,5) l by (simp add: main_def)
  have sp: "\<forall>i<length (rows df). \<exists>s. map_of (rows df ! i) ''Species'' = Some (PStr s)
                    \<and> Species (new ! i) = strip s"
  proof (intro allI impI)
    fix i assume i: "i < length (rows df)"
    then have "rows df ! i \<in> set (rows df)" by simp
    with assms(3) obtain s where c: "map_of (rows df ! i) ''Species'' = Some (PStr s)" by blast
    from main_body_string_returns [OF c assms(4), of "(t # ts) ! i"] each i
    have "Species (new ! i) = strip s" by auto
    with c show "\<exists>s. map_of (rows df ! i) ''Species'' = Some (PStr s)
                    \<and> Species (new ! i) = strip s" by blast
  qed
  have "written (last (t # ts) @ [ToCsv output_csv new, Print (ResultsSaved output_csv)])
             = written t @ [(output_csv, new)]"
    using wr by simp
  with m n each sp show ?thesis by blast
qed

theorem main_one_record_per_row_witness:
  "\<exists>results ts.
     main (mock_world (species_frame [PStr '' Quercus robur '', PStr ''Fagus sylvatica'']) offline offline)
       ''species_list.csv'' ''species_results.csv'' [] =
       (Inr (), last ([] # ts) @ [ToCsv ''species_results.csv'' results,
                                  Print (ResultsSaved ''species_results.csv'')])
     \<and> length results = 2
     \<and> Species (results ! 0) = ''Quercus robur''
     \<and> Species (results ! 1) = ''Fagus sylvatica''"
proof -
  let ?df = "species_frame [PStr '' Quercus robur '', PStr ''Fagus sylvatica'']"
  let ?w = "mock_world ?df offline offline"
  have 1: "read_csv ?w ''species_list.csv'' = Inr ?df" by (simp add: mock_world_def)
  have 2: "''Species'' \<in> set (columns ?df)" by (simp add: species_frame_def)
  have 3: "\<forall>row\<in>set (rows ?df). \<exists>s. map_of row ''Species'' = Some (PStr s)"
    by (simp add: species_frame_def)
  have 4: "\<forall>l. can_print ?w l" by simp
  have 5: "\<forall>records. to_csv ?w ''species_results.csv'' records = None"
    by (simp add: mock_world_def)
  have r: "rows ?df = [[(''Species'', PStr '' Quercus robur '')], [(''Species'', PStr ''Fagus sylvatica'')]]"
    by (simp add: species_frame_def)
  have s2: "strip ''Fagus sylvatica'' = ''Fagus sylvatica''" by (simp add: strip_def is_space_def)
  from main_one_record_per_row [OF 1 2 3 4 5, of "[]"]
  obtain results ts where
    m: "main ?w ''species_list.csv'' ''species_results.csv'' [] =
         (Inr (), last ([] # ts) @ [ToCsv ''species_results.csv'' results,
                                  Print (ResultsSaved ''species_results.csv'')])"
    and n: "length results = length (rows ?df)"
    and e: "\<forall>i<length (rows ?df). \<exists>s. map_of (rows ?df ! i) ''Species'' = Some (PStr s)
                    \<and> Species (results ! i) = strip s"
    by blast
  from e have "Species (results ! 0) = ''Quercus robur''"
    unfolding r using strip_oak by auto
  moreover from e have "Species (results ! 1) = ''Fagus sylvatica''"
    unfolding r using s2 by auto
  moreover from n have "length results = 2" unfolding r by simp
  ultimately show ?thesis using m by blast
qed

lemma main_body_oak_offline:
  "main_body (mock_world df offline offline) [(''Species'', PStr ''Quercus robur'')] [] =
     (Inr \<lparr>Species = ''Quercus robur'', POWO_URL = ''Not Found'', Synonyms = ''None''\<rparr>,
      [Print (ProcessingSpecies ''Quercus robur''),
       Get (ipni_request ''Quercus robur''),
       Print (ErrorRetrievingIpniId ''Quercus robur'' (RequestException ''offline'')),
       Print (NoIpniIdFound ''Quercus robur'')])"
  by (simp add: main_body_def series_get_def resolver_offline strip_def is_space_def)

lemma main_body_full_disk: "main_body (full_disk w) row t = main_body w row t"
  by (simp add: main_body_def fetch_ipni_id_def fetch_synonyms_from_powo_def py_print_def
      cong: sum.case_cong prod.case_cong option.case_cong if_cong)

theorem run_aborts_counterexample:
  "''Species'' \<in> set (columns blank_cell_frame)
   \<and> main (mock_world blank_cell_frame offline offline) ''species_list.csv'' ''species_results.csv'' [] =
       (Inl AttributeError,
        [Print (ProcessingSpecies ''Quercus robur''),
         Get (ipni_request ''Quercus robur''),
         Print (ErrorRetrievingIpniId ''Quercus robur'' (RequestException ''offline'')),
         Print (NoIpniIdFound ''Quercus robur'')])
   \<and> ''Species'' \<in> set (columns (species_frame [PStr mint_name]))
   \<and> main (ascii_console (mock_world (species_frame [PStr mint_name]) offline offline))
       ''species_list.csv'' ''species_results.csv'' [] =
       (Inl UnicodeEncodeError, [])
   \<and> ''Species'' \<in> set (columns (species_frame [PStr ''Quercus robur'']))
   \<and> main (full_disk (mock_world (species_frame [PStr ''Quercus robur'']) offline offline))
       ''species_list.csv'' ''species_results.csv'' [] =
       (Inl (OSError ''No space left on device''),
        [Print (ProcessingSpecies ''Quercus robur''),
         Get (ipni_request ''Quercus robur''),
         Print (ErrorRetrievingIpniId ''Quercus robur'' (RequestException ''offline'')),
         Print (NoIpniIdFound ''Quercus robur'')])"
proof -
  have a: "main (mock_world blank_cell_frame offline offline)
             ''species_list.csv'' ''species_results.csv'' [] =
       (Inl AttributeError,
        [Print (ProcessingSpecies ''Quercus robur''),
         Get (ipni_request ''Quercus robur''),
         Print (ErrorRetrievingIpniId ''Quercus robur'' (RequestException ''offline'')),
         Print (NoIpniIdFound ''Quercus robur'')])"
  proof -
    have "main_body (mock_world blank_cell_frame offline offline) [(''Species'', PFloat NaN)]
            [Print (ProcessingSpecies ''Quercus robur''),
             Get (ipni_request ''Quercus robur''),
             Print (ErrorRetrievingIpniId ''Quercus robur'' (RequestException ''offline'')),
             Print (NoIpniIdFound ''Quercus robur'')] =
          (Inl AttributeError,
            [Print (ProcessingSpecies ''Quercus robur''),
             Get (ipni_request ''Quercus robur''),
             Print (ErrorRetrievingIpniId ''Quercus robur'' (RequestException ''offline'')),
             Print (NoIpniIdFound ''Quercus robur'')])"
      by (simp add: main_body_def series_get_def)
    moreover have "read_csv (mock_world blank_cell_frame offline offline) ''species_list.csv''
        = Inr blank_cell_frame" by (simp add: mock_world_def)
    moreover have "rows blank_cell_frame =
        [[(''Species'', PStr ''Quercus robur'')], [(''Species'', PFloat NaN)]]"
      "columns blank_cell_frame = [''Species'']"
      by (simp_all add: blank_cell_frame_def species_frame_def)
    ultimately show ?thesis
      by (simp add: main_def main_body_oak_offline)
  qed
  have b: "main (ascii_console (mock_world (species_frame [PStr mint_name]) offline offline))
       ''species_list.csv'' ''species_results.csv'' [] = (Inl UnicodeEncodeError, [])"
  proof -
    have "main_body (ascii_console (mock_world (species_frame [PStr mint_name]) offline offline))
            [(''Species'', PStr mint_name)] [] = (Inl UnicodeEncodeError, [])"
      using main_body_name_unprintable [of "[(''Species'', PStr mint_name)]" mint_name] mint_unprintable(1)
      by (simp add: strip_mint)
    then show ?thesis
      by (simp add: main_def species_frame_def mock_world_def ascii_console_def)
  qed
  have c: "main (full_disk (mock_world (species_frame [PStr ''Quercus robur'']) offline offline))
       ''species_list.csv'' ''species_results.csv'' [] =
       (Inl (OSError ''No space left on device''),
        [Print (ProcessingSpecies ''Quercus robur''),
         Get (ipni_request ''Quercus robur''),
         Print (ErrorRetrievingIpniId ''Quercus robur'' (RequestException ''offline'')),
         Print (NoIpniIdFound ''Quercus robur'')])"
  proof -
    have "read_csv (mock_world (species_frame [PStr ''Quercus robur'']) offline offline)
            ''species_list.csv'' = Inr (species_frame [PStr ''Quercus robur''])"
      by (simp add: mock_world_def)
    then show ?thesis
      by (simp add: main_def species_frame_def main_body_full_disk main_body_oak_offline)
  qed
  from a b c show ?thesis
    by (simp add: blank_cell_frame_def species_frame_def)
qed

end
